theory Spec2Isabelle
  imports Complex_Main
begin

section \<open>PyRoboLearn: the \<open>Policy\<close> class of \<open>pyrobolearn/policies/policy.py\<close>\<close>

text \<open>
  A shallow embedding of \<open>Policy\<close>. A method of the class is a function that takes the
  policy object and returns the outcome of the call (an exception as \<open>Inl\<close>, a returned
  value as \<open>Inr\<close>) together with the object as the call leaves it, so that what a call
  has already mutated when it raises stays visible.
\<close>

subsection \<open>Python values\<close>

datatype error = TypeError | AttributeError | ZeroDivisionError | NameError | ValueError | RuntimeError

text \<open>The instances of \<open>int\<close>: \<open>bool\<close> is a subclass of \<open>int\<close>, \<open>True\<close> counts as 1.\<close>

datatype pyint = IntV int | BoolV bool

fun int_of :: "pyint \<Rightarrow> int" where
  "int_of (IntV i) = i"
| "int_of (BoolV b) = (if b then 1 else 0)"

text \<open>
  The data that flows through a policy. Arrays and tensors are one-dimensional sequences
  of numbers; a tensor carries its \<open>requires_grad\<close> flag. \<open>PExc e\<close> is an exception
  instance.

  Modelled from the spec: the class \<open>State\<close> lives in another module of the package, and
  the policy reads nothing of it but \<open>merged_data\<close>. \<open>PState md\<close> is an instance of \<open>State\<close>
  whose \<open>merged_data\<close> is the list \<open>md\<close>.
\<close>

datatype pyval =
    PNone
  | PInt pyint
  | PStr string
  | NdArray "real list"
  | Tensor bool "real list"
  | PList "pyval list"
  | PState "pyval list"
  | PExc error

subsection \<open>Collaborators\<close>

text \<open>
  Modelled from the spec: the classes \<open>Action\<close>, \<open>Model\<close>, \<open>Approximator\<close> and the
  processors live in other modules of the package; the policy consumes them through thin
  method-call interfaces (\<open>model.predict\<close>, \<open>action.__call__\<close>). An elementary action has
  the method \<open>is_discrete()\<close> and the attributes \<open>data\<close> and \<open>torch_data\<close>; an \<open>Action\<close>
  instance iterates over its elementary actions in order.
\<close>

record action =
  is_discrete :: bool
  data :: pyval
  torch_data :: pyval

text \<open>
  Modelled from the spec: a processor is a callable on data, taken as the function from
  the data it receives to the data it returns. A learning model offers
  \<open>predict(state, to_numpy)\<close> and methods without argument, given here by the value each
  returns (\<open>is_recurrent\<close>, \<open>parameters\<close>, ...). A call on a collaborator is taken to
  return; the exceptions of this model are those the code of the policy raises itself or
  meets on an object that lacks the attribute it asks for.
\<close>

type_synonym processor = "pyval \<Rightarrow> pyval"

record learner =
  predict_fn :: "pyval \<Rightarrow> bool \<Rightarrow> pyval"
  method0 :: "string \<Rightarrow> pyval"

text \<open>
  Modelled from the spec: an approximator couples inputs, outputs and a learning model;
  its \<open>predict(state, to_numpy, return_logits, set_output_data)\<close> takes three flags.
\<close>

record approximator =
  inputs :: pyval
  outputs :: "action list"
  inner :: learner
  apredict :: "pyval \<Rightarrow> bool \<Rightarrow> bool \<Rightarrow> bool \<Rightarrow> pyval"
  amethod0 :: "string \<Rightarrow> pyval"

text \<open>
  Modelled from the spec: the constructor call
  \<open>Approximator(inputs=..., outputs=..., model=...)\<close> stores its three arguments; the
  approximator built this way dispatches to the underlying model's \<open>predict\<close>.
\<close>

definition Approximator :: "pyval \<Rightarrow> action list \<Rightarrow> learner \<Rightarrow> approximator" where
  "Approximator ins outs m =
     \<lparr> inputs = ins, outputs = outs, inner = m,
       apredict = (\<lambda>x to_numpy return_logits set_output_data. predict_fn m x to_numpy),
       amethod0 = method0 m \<rparr>"

text \<open>Any object that can be handed to the policy: the universe of the \<open>isinstance\<close> tests.\<close>

datatype pyobj =
    Plain pyval
  | ActionObj "action list"
  | ModelObj learner
  | ApproxObj approximator

fun isinstance_State :: "pyobj \<Rightarrow> bool" where
  "isinstance_State (Plain (PState md)) = True"
| "isinstance_State _ = False"

fun isinstance_Action :: "pyobj \<Rightarrow> bool" where
  "isinstance_Action (ActionObj a) = True"
| "isinstance_Action _ = False"

fun isinstance_Model :: "pyobj \<Rightarrow> bool" where
  "isinstance_Model (ModelObj m) = True"
| "isinstance_Model _ = False"

fun isinstance_Approximator :: "pyobj \<Rightarrow> bool" where
  "isinstance_Approximator (ApproxObj a) = True"
| "isinstance_Approximator _ = False"

fun isinstance_int :: "pyobj \<Rightarrow> bool" where
  "isinstance_int (Plain (PInt i)) = True"
| "isinstance_int _ = False"

fun is_None :: "pyobj \<Rightarrow> bool" where
  "is_None (Plain PNone) = True"
| "is_None _ = False"

subsection \<open>The policy object\<close>

text \<open>
  The calls a policy makes on its collaborators, in the order it makes them. The log is
  not an attribute of the Python object: it records the effects on the collaborators.
\<close>

datatype event =
    PreprocessorCall nat pyval
  | PredictCall pyval
  | PostprocessorCall nat pyval
  | ActionsCall
  | PreprocessorReset nat
  | PostprocessorReset nat
  | ModelReset

record policy =
  states :: pyval
  actions :: "action list"
  model :: pyobj
  train_mode :: bool
  rate :: pyint
  cnt :: int
  action_data :: pyval
  preprocessors :: "processor list"
  postprocessors :: "processor list"
  trace :: "event list"

subsection \<open>Property getters and setters\<close>

definition get_states :: "policy \<Rightarrow> pyobj" where
  "get_states p = Plain (states p)"

definition set_states :: "pyobj \<Rightarrow> policy \<Rightarrow> (error + unit) \<times> policy" where
  "set_states v p =
     (if \<not> is_None v \<and> \<not> isinstance_State v then (Inl TypeError, p)
      else (case v of Plain s \<Rightarrow> (Inr (), p\<lparr>states := s\<rparr>) | _ \<Rightarrow> (Inl TypeError, p)))"

definition get_actions :: "policy \<Rightarrow> pyobj" where
  "get_actions p = ActionObj (actions p)"

definition set_actions :: "pyobj \<Rightarrow> policy \<Rightarrow> (error + unit) \<times> policy" where
  "set_actions v p =
     (if \<not> isinstance_Action v then (Inl TypeError, p)
      else (case v of ActionObj a \<Rightarrow> (Inr (), p\<lparr>actions := a\<rparr>) | _ \<Rightarrow> (Inl TypeError, p)))"

definition get_model :: "policy \<Rightarrow> pyobj" where
  "get_model p = model p"

definition set_model :: "pyobj \<Rightarrow> policy \<Rightarrow> policy" where
  "set_model v p =
     (let v' = (if \<not> is_None v \<and> \<not> isinstance_Approximator v
                then (if isinstance_Model v
                      then (case v of
                              ModelObj m \<Rightarrow> ApproxObj (Approximator (states p) (actions p) m)
                            | _ \<Rightarrow> v)
                      else v)
                else v)
      in p\<lparr>model := v'\<rparr>)"

definition get_rate :: "policy \<Rightarrow> pyobj" where
  "get_rate p = Plain (PInt (rate p))"

definition set_rate :: "pyobj \<Rightarrow> policy \<Rightarrow> (error + unit) \<times> policy" where
  "set_rate v p =
     (if \<not> isinstance_int v then (Inl TypeError, p)
      else (case v of Plain (PInt r) \<Rightarrow> (Inr (), p\<lparr>rate := r\<rparr>) | _ \<Rightarrow> (Inl TypeError, p)))"

text \<open>
  In each setter the inner \<open>case\<close> only reads the value out of the object that has passed
  the \<open>isinstance\<close> test; its default branch is never reached. The model setter raises
  nothing: the \<open>TypeError\<close> for an object that is neither is commented out in the source,
  and such an object is stored as it is.
\<close>

subsection \<open>The constructor\<close>

text \<open>The argument \<open>preprocessors\<close> or \<open>postprocessors\<close>: \<open>None\<close>, one processor, or a list.\<close>

datatype processors_arg = NoProcessors | OneProcessor processor | ProcessorList "processor list"

fun as_processor_list :: "processors_arg \<Rightarrow> processor list" where
  "as_processor_list NoProcessors = []"
| "as_processor_list (OneProcessor f) = [f]"
| "as_processor_list (ProcessorList fs) = fs"

text \<open>
  The object before \<open>__init__\<close> has assigned anything. Every attribute is assigned before
  it is read (the model setter reads \<open>states\<close> and \<open>actions\<close>, which are set first), so
  none of these initial values is ever observed.
\<close>

definition blank :: policy where
  "blank = \<lparr> states = PNone, actions = [], model = Plain PNone, train_mode = False,
             rate = IntV 1, cnt = 0, action_data = PNone, preprocessors = [],
             postprocessors = [], trace = [] \<rparr>"

definition Policy_init ::
  "pyobj \<Rightarrow> pyobj \<Rightarrow> pyobj \<Rightarrow> pyobj \<Rightarrow> processors_arg \<Rightarrow> processors_arg \<Rightarrow> error + policy" where
  "Policy_init states_arg actions_arg model_arg rate_arg preprocessors_arg postprocessors_arg =
     (case set_states states_arg blank of
        (Inl e, _) \<Rightarrow> Inl e
      | (Inr _, p1) \<Rightarrow>
     (case set_actions actions_arg p1 of
        (Inl e, _) \<Rightarrow> Inl e
      | (Inr _, p2) \<Rightarrow>
     (let p3 = set_model model_arg p2;
          p4 = p3\<lparr>train_mode := False\<rparr>
      in case set_rate rate_arg p4 of
        (Inl e, _) \<Rightarrow> Inl e
      | (Inr _, p5) \<Rightarrow>
          Inr (p5\<lparr>cnt := 0, action_data := PNone,
                  preprocessors := as_processor_list preprocessors_arg,
                  postprocessors := as_processor_list postprocessors_arg\<rparr>))))"

subsection \<open>Methods that ask the inner model\<close>

text \<open>
  \<open>self.model.name()\<close> for a method without argument: a learning model or an approximator
  answers; \<open>None\<close> and every other object have no such attribute.
\<close>

fun call_method0 :: "pyobj \<Rightarrow> string \<Rightarrow> error + pyval" where
  "call_method0 (ModelObj m) name = Inr (method0 m name)"
| "call_method0 (ApproxObj a) name = Inr (amethod0 a name)"
| "call_method0 _ name = Inl AttributeError"

text \<open>\<open>raise v\<close>: an exception instance is raised; any other value makes \<open>raise\<close> itself fail
  with a \<open>TypeError\<close> (exceptions must derive from \<open>BaseException\<close>).\<close>

fun py_raise :: "pyval \<Rightarrow> error" where
  "py_raise (PExc e) = e"
| "py_raise _ = TypeError"

definition is_recurrent :: "policy \<Rightarrow> error + pyval" where
  "is_recurrent p =
     (case call_method0 (model p) ''is_recurrent'' of
        Inl e \<Rightarrow> Inl e
      | Inr v \<Rightarrow> Inl (py_raise v))"

definition parameters :: "policy \<Rightarrow> error + pyval" where
  "parameters p = (if is_None (model p) then Inr (PList []) else call_method0 (model p) ''parameters'')"

definition named_parameters :: "policy \<Rightarrow> error + pyval" where
  "named_parameters p =
     (if is_None (model p) then Inr (PList []) else call_method0 (model p) ''named_parameters'')"

definition list_parameters :: "policy \<Rightarrow> error + pyval" where
  "list_parameters p =
     (if is_None (model p) then Inr (PList []) else call_method0 (model p) ''list_parameters'')"

definition hyperparameters :: "policy \<Rightarrow> error + pyval" where
  "hyperparameters p =
     (if is_None (model p) then Inr (PList []) else call_method0 (model p) ''hyperparameters'')"

definition named_hyperparameters :: "policy \<Rightarrow> error + pyval" where
  "named_hyperparameters p =
     (if is_None (model p) then Inr (PList [])
      else call_method0 (model p) ''named_hyperparameters'')"

definition list_hyperparameters :: "policy \<Rightarrow> error + pyval" where
  "list_hyperparameters p =
     (if is_None (model p) then Inr PNone else call_method0 (model p) ''list_hyperparameters'')"

subsection \<open>\<open>reset\<close>\<close>

text \<open>The two loops \<open>for processor in ...: processor.reset()\<close>; the index counts the position.\<close>

fun reset_preprocessors :: "processor list \<Rightarrow> nat \<Rightarrow> policy \<Rightarrow> policy" where
  "reset_preprocessors [] i p = p"
| "reset_preprocessors (f # fs) i p =
     reset_preprocessors fs (Suc i) (p\<lparr>trace := trace p @ [PreprocessorReset i]\<rparr>)"

fun reset_postprocessors :: "processor list \<Rightarrow> nat \<Rightarrow> policy \<Rightarrow> policy" where
  "reset_postprocessors [] i p = p"
| "reset_postprocessors (f # fs) i p =
     reset_postprocessors fs (Suc i) (p\<lparr>trace := trace p @ [PostprocessorReset i]\<rparr>)"

text \<open>\<open>self.model.reset()\<close>: the attribute lookup fails on \<open>None\<close> and on foreign objects.\<close>

fun model_reset :: "policy \<Rightarrow> (error + unit) \<times> policy" where
  "model_reset p =
     (case model p of
        ModelObj m \<Rightarrow> (Inr (), p\<lparr>trace := trace p @ [ModelReset]\<rparr>)
      | ApproxObj a \<Rightarrow> (Inr (), p\<lparr>trace := trace p @ [ModelReset]\<rparr>)
      | _ \<Rightarrow> (Inl AttributeError, p))"

definition reset :: "bool \<Rightarrow> policy \<Rightarrow> (error + unit) \<times> policy" where
  "reset reset_processors p =
     (let p1 = reset_preprocessors (preprocessors p) 0 p;
          p2 = reset_postprocessors (postprocessors p1) 0 p1
      in model_reset p2)"

subsection \<open>Library functions used by \<open>act\<close>\<close>

text \<open>
  \<open>cnt % rate\<close> on Python integers: the result takes the sign of the divisor, as \<open>mod\<close>
  on \<open>int\<close> does; a zero divisor raises.
\<close>

definition py_mod :: "int \<Rightarrow> pyint \<Rightarrow> error + int" where
  "py_mod a r = (if int_of r = 0 then Inl ZeroDivisionError else Inr (a mod int_of r))"

text \<open>
  \<open>argmax\<close>: the index of the first greatest element. The scan keeps the best index and
  value seen so far and replaces them only on a strictly greater element.
\<close>

fun argmax_scan :: "real list \<Rightarrow> nat \<Rightarrow> nat \<Rightarrow> real \<Rightarrow> nat" where
  "argmax_scan [] i best bv = best"
| "argmax_scan (x # xs) i best bv =
     (if bv < x then argmax_scan xs (Suc i) i x else argmax_scan xs (Suc i) best bv)"

fun argmax :: "real list \<Rightarrow> nat option" where
  "argmax [] = None"
| "argmax (x # xs) = Some (argmax_scan xs 1 0 x)"

text \<open>\<open>np.array([np.argmax(data)])\<close>; \<open>np.argmax\<close> raises \<open>ValueError\<close> on an empty array.\<close>

definition np_argmax_array :: "real list \<Rightarrow> error + pyval" where
  "np_argmax_array xs =
     (case argmax xs of None \<Rightarrow> Inl ValueError | Some k \<Rightarrow> Inr (NdArray [real k]))"

text \<open>\<open>torch.argmax(data, dim=0, keepdim=True)\<close>: a one-element tensor without gradient;
  the reduction of an empty tensor raises.\<close>

definition torch_argmax :: "real list \<Rightarrow> error + pyval" where
  "torch_argmax xs =
     (case argmax xs of None \<Rightarrow> Inl RuntimeError | Some k \<Rightarrow> Inr (Tensor False [real k]))"

fun isinstance_ndarray :: "pyval \<Rightarrow> bool" where
  "isinstance_ndarray (NdArray xs) = True"
| "isinstance_ndarray _ = False"

fun isinstance_Tensor :: "pyval \<Rightarrow> bool" where
  "isinstance_Tensor (Tensor g xs) = True"
| "isinstance_Tensor _ = False"

fun isinstance_list :: "pyval \<Rightarrow> bool" where
  "isinstance_list (PList xs) = True"
| "isinstance_list _ = False"

fun requires_grad :: "pyval \<Rightarrow> bool" where
  "requires_grad (Tensor g xs) = g"
| "requires_grad _ = False"

fun detach :: "pyval \<Rightarrow> pyval" where
  "detach (Tensor g xs) = Tensor False xs"
| "detach v = v"

fun numpy :: "pyval \<Rightarrow> pyval" where
  "numpy (Tensor g xs) = NdArray xs"
| "numpy v = v"

definition convert_to_numpy :: "pyval \<Rightarrow> bool \<Rightarrow> pyval" where
  "convert_to_numpy x to_numpy =
     (if to_numpy \<and> isinstance_Tensor x
      then (if requires_grad x then numpy (detach x) else numpy x)
      else x)"

subsection \<open>\<open>act\<close>\<close>

definition log_event :: "event \<Rightarrow> policy \<Rightarrow> policy" where
  "log_event ev p = p\<lparr>trace := trace p @ [ev]\<rparr>"

text \<open>
  \<open>_predict\<close>: an approximator is called with all the flags, any other model with
  \<open>to_numpy\<close> only. \<open>None\<close> and the foreign objects have no attribute \<open>predict\<close>.
\<close>

definition Policy_predict ::
  "pyval \<Rightarrow> bool \<Rightarrow> bool \<Rightarrow> bool \<Rightarrow> policy \<Rightarrow> (error + pyval) \<times> policy" where
  "Policy_predict state to_numpy return_logits set_output_data p =
     (case model p of
        ApproxObj a \<Rightarrow>
          (Inr (apredict a state to_numpy return_logits set_output_data),
           log_event (PredictCall state) p)
      | ModelObj m \<Rightarrow> (Inr (predict_fn m state to_numpy), log_event (PredictCall state) p)
      | _ \<Rightarrow> (Inl AttributeError, p))"

text \<open>Lines 418 to 426: the state the prediction starts from.\<close>

definition resolve_state :: "pyval \<Rightarrow> policy \<Rightarrow> pyval" where
  "resolve_state state p =
     (let state1 = (if state = PNone then states p else state)
      in case state1 of
           PState merged_data \<Rightarrow>
             (if length merged_data = 1 then merged_data ! 0 else PList merged_data)
         | _ \<Rightarrow> state1)"

text \<open>\<open>for processor in self.preprocessors: state = processor(state)\<close>\<close>

fun apply_preprocessors :: "processor list \<Rightarrow> nat \<Rightarrow> pyval \<Rightarrow> policy \<Rightarrow> pyval \<times> policy" where
  "apply_preprocessors [] i state p = (state, p)"
| "apply_preprocessors (f # fs) i state p =
     apply_preprocessors fs (Suc i) (f state) (log_event (PreprocessorCall i state) p)"

text \<open>\<open>for processor in self.postprocessors: self.action_data = processor(self.action_data)\<close>\<close>

fun apply_postprocessors :: "processor list \<Rightarrow> nat \<Rightarrow> policy \<Rightarrow> policy" where
  "apply_postprocessors [] i p = p"
| "apply_postprocessors (f # fs) i p =
     apply_postprocessors fs (Suc i)
       (log_event (PostprocessorCall i (action_data p)) (p\<lparr>action_data := f (action_data p)\<rparr>))"

text \<open>Lines 418 to 448: from the state to the list of action data.\<close>

definition compute_action_data :: "pyval \<Rightarrow> policy \<Rightarrow> (error + unit) \<times> policy" where
  "compute_action_data state p =
     (let state2 = resolve_state state p;
          (state3, p1) = apply_preprocessors (preprocessors p) 0 state2 p
      in case Policy_predict state3 False True False p1 of
           (Inl e, p2) \<Rightarrow> (Inl e, p2)
         | (Inr d, p2) \<Rightarrow>
             (let p3 = p2\<lparr>action_data := d\<rparr>;
                  p4 = apply_postprocessors (postprocessors p3) 0 p3;
                  p5 = (if \<not> isinstance_list (action_data p4)
                        then p4\<lparr>action_data := PList [action_data p4]\<rparr> else p4)
              in (Inr (), p5)))"

text \<open>
  The assignments of the loop body: \<open>action.data = v\<close> and \<open>action.torch_data = v\<close> on the
  elementary action at position \<open>idx\<close>, and \<open>self.action_data[idx] = v\<close>.
\<close>

definition set_data :: "nat \<Rightarrow> pyval \<Rightarrow> policy \<Rightarrow> policy" where
  "set_data idx v p = p\<lparr>actions := (actions p)[idx := (actions p ! idx)\<lparr>data := v\<rparr>]\<rparr>"

definition set_torch_data :: "nat \<Rightarrow> pyval \<Rightarrow> policy \<Rightarrow> policy" where
  "set_torch_data idx v p =
     p\<lparr>actions := (actions p)[idx := (actions p ! idx)\<lparr>torch_data := v\<rparr>]\<rparr>"

fun list_items :: "pyval \<Rightarrow> pyval list" where
  "list_items (PList xs) = xs"
| "list_items _ = []"

definition set_item :: "nat \<Rightarrow> pyval \<Rightarrow> policy \<Rightarrow> policy" where
  "set_item idx v p = p\<lparr>action_data := PList ((list_items (action_data p))[idx := v])\<rparr>"

text \<open>Lines 452 to 485: the body of the loop, for the pair at position \<open>idx\<close>.\<close>

definition dispatch_pair ::
  "nat \<Rightarrow> action \<Rightarrow> pyval \<Rightarrow> bool \<Rightarrow> bool \<Rightarrow> policy \<Rightarrow> (error + unit) \<times> policy" where
  "dispatch_pair idx action d to_numpy return_logits p =
     (if is_discrete action then
        (case d of
           NdArray xs \<Rightarrow>
             (case np_argmax_array xs of
                Inl e \<Rightarrow> (Inl e, p)
              | Inr discrete_data \<Rightarrow>
                  (let p1 = set_data idx discrete_data p
                   in (Inr (), if \<not> return_logits then set_item idx discrete_data p1 else p1)))
         | Tensor g xs \<Rightarrow>
             (case torch_argmax xs of
                Inl e \<Rightarrow> (Inl e, p)
              | Inr discrete_data \<Rightarrow>
                  (let p1 = set_torch_data idx discrete_data p
                   in (Inr (),
                       if \<not> return_logits
                       then set_item idx (convert_to_numpy discrete_data to_numpy) p1
                       else set_item idx (convert_to_numpy d to_numpy) p1)))
         | _ \<Rightarrow> (Inl TypeError, p))
      else
        (case d of
           NdArray xs \<Rightarrow> (Inr (), set_data idx d p)
         | Tensor g xs \<Rightarrow>
             (Inr (), set_item idx (convert_to_numpy d to_numpy) (set_torch_data idx d p))
         | _ \<Rightarrow> (Inl TypeError, p)))"

text \<open>
  \<open>for idx, (action, data) in enumerate(zip(self.actions, self.action_data))\<close>. The body
  writes only at the position it is visiting, so the pairs still to come are those of the
  zip taken when the loop starts. An exception leaves the loop with what the earlier
  rounds have written.
\<close>

fun dispatch ::
  "(action \<times> pyval) list \<Rightarrow> nat \<Rightarrow> bool \<Rightarrow> bool \<Rightarrow> policy \<Rightarrow> (error + unit) \<times> policy" where
  "dispatch [] idx to_numpy return_logits p = (Inr (), p)"
| "dispatch ((action, d) # rest) idx to_numpy return_logits p =
     (case dispatch_pair idx action d to_numpy return_logits p of
        (Inl e, p1) \<Rightarrow> (Inl e, p1)
      | (Inr u, p1) \<Rightarrow> dispatch rest (Suc idx) to_numpy return_logits p1)"

text \<open>Lines 450 to 489: the loop, then a list of one element gives way to that element.\<close>

definition assign_action_data :: "bool \<Rightarrow> bool \<Rightarrow> policy \<Rightarrow> (error + unit) \<times> policy" where
  "assign_action_data to_numpy return_logits p =
     (case dispatch (zip (actions p) (list_items (action_data p))) 0 to_numpy return_logits p of
        (Inl e, p1) \<Rightarrow> (Inl e, p1)
      | (Inr u, p1) \<Rightarrow>
          (Inr (),
           if isinstance_list (action_data p1) \<and> length (list_items (action_data p1)) = 1
           then p1\<lparr>action_data := list_items (action_data p1) ! 0\<rparr>
           else p1))"

text \<open>Lines 491 to 499: execute the action if asked, count the tick, return the data.\<close>

definition finish_act :: "bool \<Rightarrow> policy \<Rightarrow> (error + pyval) \<times> policy" where
  "finish_act apply_action p =
     (let p1 = (if apply_action then log_event ActionsCall p else p);
          p2 = p1\<lparr>cnt := cnt p1 + 1\<rparr>
      in (Inr (action_data p2), p2))"

definition act ::
  "pyval \<Rightarrow> bool \<Rightarrow> bool \<Rightarrow> bool \<Rightarrow> bool \<Rightarrow> policy \<Rightarrow> (error + pyval) \<times> policy" where
  "act state deterministic to_numpy return_logits apply_action p =
     (case py_mod (cnt p) (rate p) of
        Inl e \<Rightarrow> (Inl e, p)
      | Inr r \<Rightarrow>
          (if r = 0 then
             (case compute_action_data state p of
                (Inl e, p1) \<Rightarrow> (Inl e, p1)
              | (Inr u, p1) \<Rightarrow>
                  (case assign_action_data to_numpy return_logits p1 of
                     (Inl e, p2) \<Rightarrow> (Inl e, p2)
                   | (Inr u, p2) \<Rightarrow> finish_act apply_action p2))
           else finish_act apply_action p))"

subsection \<open>\<open>__call__\<close>\<close>

text \<open>
  The body of \<open>__call__\<close> is \<open>return self.act(*args, **kwargs)\<close>. A name is looked up among
  the parameters of the function, then among the names bound at module level; the
  names every module has (\<open>__name__\<close>, \<open>__doc__\<close>, ...) and the builtins bind neither
  \<open>args\<close> nor \<open>kwargs\<close>. A name bound nowhere raises \<open>NameError\<close>.
\<close>

definition call_parameters :: "string list" where
  "call_parameters =
     [''self'', ''state'', ''deterministic'', ''to_numpy'', ''return_logits'', ''apply_action'']"

definition module_names :: "string list" where
  "module_names =
     [''collections'', ''pickle'', ''np'', ''torch'', ''State'', ''Action'', ''Model'',
      ''Approximator'', ''__author__'', ''__copyright__'', ''__credits__'', ''__license__'',
      ''__version__'', ''__maintainer__'', ''__email__'', ''__status__'', ''Policy'']"

definition name_bound :: "string \<Rightarrow> bool" where
  "name_bound n = (n \<in> set call_parameters \<or> n \<in> set module_names)"

definition Policy_call ::
  "pyval \<Rightarrow> bool \<Rightarrow> bool \<Rightarrow> bool \<Rightarrow> bool \<Rightarrow> policy \<Rightarrow> (error + pyval) \<times> policy" where
  "Policy_call state deterministic to_numpy return_logits apply_action p =
     (if \<not> name_bound ''args'' then (Inl NameError, p)
      else if \<not> name_bound ''kwargs'' then (Inl NameError, p)
      else act state deterministic to_numpy return_logits apply_action p)"

subsection \<open>Successive calls\<close>

text \<open>
  A control loop calls \<open>act\<close> tick after tick. The outcomes of a sequence of calls, each
  with its own arguments, and the policy after the last one.
\<close>

type_synonym call_args = "pyval \<times> bool \<times> bool \<times> bool \<times> bool"

fun act_calls :: "call_args list \<Rightarrow> policy \<Rightarrow> (error + pyval) list \<times> policy" where
  "act_calls [] p = ([], p)"
| "act_calls ((state, deterministic, to_numpy, return_logits, apply_action) # cs) p =
     (case act state deterministic to_numpy return_logits apply_action p of
        (r, p1) \<Rightarrow> (case act_calls cs p1 of (rs, p2) \<Rightarrow> (r # rs, p2)))"

subsection \<open>Concrete objects\<close>

text \<open>
  A learning model that answers every state with two outputs (the logits of a discrete
  action as an array, a continuous command as a tensor), the two elementary actions these
  outputs go to, and a policy over them that predicts every second tick.
\<close>

definition demo_learner :: learner where
  "demo_learner =
     \<lparr> predict_fn = (\<lambda>x to_numpy. PList [NdArray [1, 5, 3], Tensor True [2, 7]]),
       method0 = (\<lambda>name. PInt (BoolV False)) \<rparr>"

definition demo_actions :: "action list" where
  "demo_actions =
     [\<lparr> is_discrete = True, data = PNone, torch_data = PNone \<rparr>,
      \<lparr> is_discrete = False, data = PNone, torch_data = PNone \<rparr>]"

definition wrap_in_list :: processor where
  "wrap_in_list x = PList [x]"

definition demo_policy :: policy where
  "demo_policy =
     \<lparr> states = PState [NdArray [1]], actions = demo_actions, model = ModelObj demo_learner,
       train_mode = False, rate = IntV 2, cnt = 0, action_data = PNone,
       preprocessors = [wrap_in_list], postprocessors = [], trace = [] \<rparr>"

text \<open>The same policy without a model, as the constructor's default leaves it.\<close>

definition none_model_policy :: policy where
  "none_model_policy = demo_policy\<lparr>model := Plain PNone\<rparr>"

subsection \<open>Reference definitions\<close>

text \<open>
  The wording of the specification, as functions to compare the code with. Applying every
  processor of a list in order feeds each one the output of the one before; the calls this
  makes are listed with the position of the processor and the argument it receives.
\<close>

fun apply_in_order :: "processor list \<Rightarrow> pyval \<Rightarrow> pyval" where
  "apply_in_order [] x = x"
| "apply_in_order (f # fs) x = apply_in_order fs (f x)"

fun calls_in_order :: "(nat \<Rightarrow> pyval \<Rightarrow> event) \<Rightarrow> processor list \<Rightarrow> nat \<Rightarrow> pyval \<Rightarrow> event list" where
  "calls_in_order mk [] i x = []"
| "calls_in_order mk (f # fs) i x = mk i x # calls_in_order mk fs (Suc i) (f x)"

text \<open>
  The resolved state: a \<open>State\<close> instance gives way to its merged data, and a list of
  exactly one element to that element.
\<close>

fun unwrap_state :: "pyval \<Rightarrow> pyval" where
  "unwrap_state (PState [x]) = x"
| "unwrap_state (PState md) = PList md"
| "unwrap_state v = v"

text \<open>
  The one call to the inner model's \<open>predict\<close> with the flags \<open>act\<close> passes; \<open>None\<close> and the
  objects without a \<open>predict\<close> answer nothing.
\<close>

fun model_predict :: "pyobj \<Rightarrow> pyval \<Rightarrow> pyval option" where
  "model_predict (ModelObj m) s = Some (predict_fn m s False)"
| "model_predict (ApproxObj a) s = Some (apredict a s False True False)"
| "model_predict _ s = None"

fun is_predict_call :: "event \<Rightarrow> bool" where
  "is_predict_call (PredictCall s) = True"
| "is_predict_call _ = False"

text \<open>
  A pair the loop of \<open>act\<close> gets past: the data is an array or a tensor, and not empty
  where its \<open>argmax\<close> is taken. What the loop has then assigned at position \<open>k\<close>.
\<close>

fun dispatchable :: "action \<Rightarrow> pyval \<Rightarrow> bool" where
  "dispatchable a (NdArray xs) = (if is_discrete a then xs \<noteq> [] else True)"
| "dispatchable a (Tensor g xs) = (if is_discrete a then xs \<noteq> [] else True)"
| "dispatchable a _ = False"

definition assigned :: "nat \<Rightarrow> action \<Rightarrow> pyval \<Rightarrow> bool \<Rightarrow> bool \<Rightarrow> policy \<Rightarrow> bool" where
  "assigned k a d to_numpy return_logits q =
     (case d of
        NdArray xs \<Rightarrow>
          (if is_discrete a
           then (case argmax xs of
                   None \<Rightarrow> False
                 | Some j \<Rightarrow> data (actions q ! k) = NdArray [real j] \<and>
                     list_items (action_data q) ! k =
                       (if return_logits then d else NdArray [real j]))
           else data (actions q ! k) = d \<and> list_items (action_data q) ! k = d)
      | Tensor g xs \<Rightarrow>
          (if is_discrete a
           then (case argmax xs of
                   None \<Rightarrow> False
                 | Some j \<Rightarrow> torch_data (actions q ! k) = Tensor False [real j] \<and>
                     list_items (action_data q) ! k =
                       convert_to_numpy (if return_logits then d else Tensor False [real j])
                         to_numpy)
           else torch_data (actions q ! k) = d \<and>
                list_items (action_data q) ! k = convert_to_numpy d to_numpy)
      | _ \<Rightarrow> False)"

text \<open>
  What \<open>act\<close> returns is the list of action data, or its only element when the list has
  exactly one. The item at position \<open>k\<close> of a returned value \<open>v\<close>, where \<open>n\<close> is the number
  of items the prediction gave.
\<close>

definition item_of_returned :: "pyval \<Rightarrow> nat \<Rightarrow> nat \<Rightarrow> pyval option" where
  "item_of_returned v n k =
     (if n = 1 then (if k = 0 then Some v else None)
      else (case v of
              PList vs \<Rightarrow> (if length vs = n \<and> k < n then Some (vs ! k) else None)
            | _ \<Rightarrow> None))"

text \<open>
  A learning model whose output is a plain integer, which the loop of \<open>act\<close> rejects, and
  a policy over it that predicts at every tick.
\<close>

definition bad_data_learner :: learner where
  "bad_data_learner = \<lparr> predict_fn = (\<lambda>x to_numpy. PInt (IntV 7)), method0 = (\<lambda>name. PNone) \<rparr>"

definition bad_data_policy :: policy where
  "bad_data_policy = demo_policy\<lparr>model := ModelObj bad_data_learner, rate := IntV 1\<rparr>"

text \<open>
  Four elementary actions, two discrete and two continuous, and a learning model that
  predicts an array and a tensor for each kind; the policy over them. A policy with one
  discrete action whose model predicts the bare array of logits.
\<close>

definition four_actions :: "action list" where
  "four_actions =
     [\<lparr> is_discrete = True, data = PNone, torch_data = PNone \<rparr>,
      \<lparr> is_discrete = True, data = PNone, torch_data = PNone \<rparr>,
      \<lparr> is_discrete = False, data = PNone, torch_data = PNone \<rparr>,
      \<lparr> is_discrete = False, data = PNone, torch_data = PNone \<rparr>]"

definition four_data :: "pyval list" where
  "four_data = [NdArray [1, 5, 3], Tensor False [4, 2], NdArray [6], Tensor True [2, 7]]"

definition four_learner :: learner where
  "four_learner = \<lparr> predict_fn = (\<lambda>x to_numpy. PList four_data), method0 = (\<lambda>name. PNone) \<rparr>"

definition four_policy :: policy where
  "four_policy = demo_policy\<lparr>actions := four_actions, model := ModelObj four_learner\<rparr>"

definition single_learner :: learner where
  "single_learner = \<lparr> predict_fn = (\<lambda>x to_numpy. NdArray [1, 5, 3]), method0 = (\<lambda>name. PNone) \<rparr>"

definition single_policy :: policy where
  "single_policy =
     demo_policy\<lparr>actions := [\<lparr> is_discrete = True, data = PNone, torch_data = PNone \<rparr>],
                 model := ModelObj single_learner\<rparr>"

text \<open>
  A policy with one discrete action whose model predicts an empty array of logits, and a
  policy over \<open>demo_actions\<close> whose model predicts a plain integer for the discrete action
  and an array for the continuous one.
\<close>

definition empty_logits_learner :: learner where
  "empty_logits_learner = \<lparr> predict_fn = (\<lambda>x to_numpy. NdArray []), method0 = (\<lambda>name. PNone) \<rparr>"

definition empty_logits_policy :: policy where
  "empty_logits_policy =
     demo_policy\<lparr>actions := [\<lparr> is_discrete = True, data = PNone, torch_data = PNone \<rparr>],
                 model := ModelObj empty_logits_learner\<rparr>"

definition half_rejected_learner :: learner where
  "half_rejected_learner =
     \<lparr> predict_fn = (\<lambda>x to_numpy. PList [PInt (IntV 7), NdArray [6]]),
       method0 = (\<lambda>name. PNone) \<rparr>"

definition half_rejected_policy :: policy where
  "half_rejected_policy = demo_policy\<lparr>model := ModelObj half_rejected_learner\<rparr>"

text \<open>The policy \<open>demo_policy\<close> after its first call of \<open>act\<close>, which returns
  \<open>demo_result\<close>.\<close>

definition demo_result :: pyval where
  "demo_result = PList [NdArray [1], NdArray [2, 7]]"

definition demo_policy_after :: policy where
  "demo_policy_after =
     demo_policy\<lparr>actions := [\<lparr> is_discrete = True, data = NdArray [1], torch_data = PNone \<rparr>,
                              \<lparr> is_discrete = False, data = PNone, torch_data = Tensor True [2, 7] \<rparr>],
                 action_data := demo_result,
                 trace := [PreprocessorCall 0 (NdArray [1]), PredictCall (PList [NdArray [1]]),
                           ActionsCall],
                 cnt := 1\<rparr>"

section \<open>Verified properties\<close>

subsection \<open>Setters\<close>

text \<open>
  C8. Assigning to \<open>states\<close> a value that is neither \<open>None\<close> nor a \<open>State\<close>, to \<open>actions\<close> a
  value that is not an \<open>Action\<close>, or to \<open>rate\<close> a value that is not an \<open>int\<close>, raises
  \<open>TypeError\<close> and leaves the policy as it was, the stored attribute included; every
  other assignment succeeds, and the getter then returns exactly the value assigned.
\<close>

theorem setters_validate:
  "(\<not> is_None vs \<and> \<not> isinstance_State vs \<longrightarrow> set_states vs p = (Inl TypeError, p)) \<and>
   (is_None vs \<or> isinstance_State vs \<longrightarrow>
      (\<exists>p'. set_states vs p = (Inr (), p') \<and> get_states p' = vs)) \<and>
   (\<not> isinstance_Action va \<longrightarrow> set_actions va p = (Inl TypeError, p)) \<and>
   (isinstance_Action va \<longrightarrow>
      (\<exists>p'. set_actions va p = (Inr (), p') \<and> get_actions p' = va)) \<and>
   (\<not> isinstance_int vr \<longrightarrow> set_rate vr p = (Inl TypeError, p)) \<and>
   (isinstance_int vr \<longrightarrow>
      (\<exists>p'. set_rate vr p = (Inr (), p') \<and> get_rate p' = vr))"
proof -
  have s: "is_None vs \<or> isinstance_State vs \<Longrightarrow>
      \<exists>p'. set_states vs p = (Inr (), p') \<and> get_states p' = vs"
    by (cases vs rule: isinstance_State.cases)
       (auto simp: set_states_def get_states_def elim: is_None.elims)
  have a: "isinstance_Action va \<Longrightarrow>
      \<exists>p'. set_actions va p = (Inr (), p') \<and> get_actions p' = va"
    by (cases va) (auto simp: set_actions_def get_actions_def)
  have r: "isinstance_int vr \<Longrightarrow> \<exists>p'. set_rate vr p = (Inr (), p') \<and> get_rate p' = vr"
    by (cases vr rule: isinstance_int.cases) (auto simp: set_rate_def get_rate_def)
  show ?thesis
    using s a r by (simp add: set_states_def set_actions_def set_rate_def)
qed

theorem setters_validate_witness:
  "set_states (Plain (PStr ''joint'')) blank = (Inl TypeError, blank) \<and>
   set_actions (Plain PNone) blank = (Inl TypeError, blank) \<and>
   set_rate (Plain (NdArray [2])) blank = (Inl TypeError, blank) \<and>
   (\<exists>p'. set_states (Plain (PState [NdArray [1]])) blank = (Inr (), p') \<and>
          get_states p' = Plain (PState [NdArray [1]])) \<and>
   (\<exists>p'. set_states (Plain PNone) blank = (Inr (), p') \<and> get_states p' = Plain PNone) \<and>
   (\<exists>p'. set_actions (ActionObj demo_actions) blank = (Inr (), p') \<and>
          get_actions p' = ActionObj demo_actions) \<and>
   (\<exists>p'. set_rate (Plain (PInt (IntV 3))) blank = (Inr (), p') \<and>
          get_rate p' = Plain (PInt (IntV 3)))"
  using setters_validate [of "Plain (PStr ''joint'')" blank "Plain PNone" "Plain (NdArray [2])"]
        setters_validate [of "Plain (PState [NdArray [1]])" blank "ActionObj demo_actions"
                             "Plain (PInt (IntV 3))"]
        setters_validate [of "Plain PNone" blank "ActionObj demo_actions" "Plain (PInt (IntV 3))"]
  by simp

subsection \<open>Model binding\<close>

lemma Policy_init_Inr:
  assumes "Policy_init vs va vm vr pre post = Inr q"
  shows "\<exists>s a r. vs = Plain s \<and> va = ActionObj a \<and> vr = Plain (PInt r) \<and>
           states q = s \<and> actions q = a \<and> rate q = r \<and>
           model q = model (set_model vm (blank\<lparr>states := s, actions := a\<rparr>))"
  using assms
  by (auto simp: Policy_init_def set_states_def set_actions_def set_rate_def set_model_def
        Let_def split: if_splits pyobj.splits pyval.splits)

text \<open>
  C7. Assigning to \<open>model\<close> an instance of \<open>Model\<close> that is not an \<open>Approximator\<close> stores an
  approximator that wraps it, with the policy's states as inputs and the policy's actions
  as outputs; an approximator and \<open>None\<close> are stored unchanged. The same holds of the
  policy a successful constructor call returns.
\<close>

theorem model_binding:
  "model (set_model (ModelObj m) p) = ApproxObj (Approximator (states p) (actions p) m) \<and>
   inner (Approximator (states p) (actions p) m) = m \<and>
   inputs (Approximator (states p) (actions p) m) = states p \<and>
   outputs (Approximator (states p) (actions p) m) = actions p \<and>
   model (set_model (ApproxObj a) p) = ApproxObj a \<and>
   model (set_model (Plain PNone) p) = Plain PNone \<and>
   (Policy_init vs va (ModelObj m) vr pre post = Inr q \<longrightarrow>
      model q = ApproxObj (Approximator (states q) (actions q) m) \<and>
      get_states q = vs \<and> get_actions q = va) \<and>
   (Policy_init vs va (ApproxObj a) vr pre post = Inr q \<longrightarrow> model q = ApproxObj a) \<and>
   (Policy_init vs va (Plain PNone) vr pre post = Inr q \<longrightarrow> model q = Plain PNone)"
proof -
  have set1: "model (set_model (ModelObj m) p') =
      ApproxObj (Approximator (states p') (actions p') m)" for p'
    by (simp add: set_model_def)
  have set2: "model (set_model (ApproxObj a) p') = ApproxObj a" for p'
    by (simp add: set_model_def)
  have set3: "model (set_model (Plain PNone) p') = Plain PNone" for p'
    by (simp add: set_model_def)
  have fields: "inner (Approximator (states p) (actions p) m) = m \<and>
      inputs (Approximator (states p) (actions p) m) = states p \<and>
      outputs (Approximator (states p) (actions p) m) = actions p"
    by (simp add: Approximator_def)
  have init1: "model q = ApproxObj (Approximator (states q) (actions q) m) \<and>
      get_states q = vs \<and> get_actions q = va"
    if "Policy_init vs va (ModelObj m) vr pre post = Inr q"
    using Policy_init_Inr [OF that] by (auto simp: set1 get_states_def get_actions_def)
  have init2: "model q = ApproxObj a" if "Policy_init vs va (ApproxObj a) vr pre post = Inr q"
    using Policy_init_Inr [OF that] by (auto simp: set2)
  have init3: "model q = Plain PNone" if "Policy_init vs va (Plain PNone) vr pre post = Inr q"
    using Policy_init_Inr [OF that] by (auto simp: set3)
  show ?thesis
    using set1 set2 set3 fields init1 init2 init3 by blast
qed

theorem model_binding_witness:
  "(\<exists>q. Policy_init (Plain (PState [NdArray [1]])) (ActionObj demo_actions) (ModelObj demo_learner)
          (Plain (PInt (IntV 2))) NoProcessors NoProcessors = Inr q \<and>
        model q = ApproxObj (Approximator (PState [NdArray [1]]) demo_actions demo_learner)) \<and>
   (\<exists>q. Policy_init (Plain (PState [NdArray [1]])) (ActionObj demo_actions)
          (ApproxObj (Approximator PNone [] demo_learner))
          (Plain (PInt (IntV 2))) NoProcessors NoProcessors = Inr q \<and>
        model q = ApproxObj (Approximator PNone [] demo_learner)) \<and>
   (\<exists>q. Policy_init (Plain (PState [NdArray [1]])) (ActionObj demo_actions) (Plain PNone)
          (Plain (PInt (IntV 2))) NoProcessors NoProcessors = Inr q \<and>
        model q = Plain PNone)"
proof -
  let ?init = "\<lambda>vm. Policy_init (Plain (PState [NdArray [1]])) (ActionObj demo_actions) vm
          (Plain (PInt (IntV 2))) NoProcessors NoProcessors"
  let ?a = "Approximator PNone [] demo_learner"
  have ok: "\<exists>q. ?init vm = Inr q" for vm
    by (simp add: Policy_init_def set_states_def set_actions_def set_rate_def Let_def)
  obtain q1 where q1: "?init (ModelObj demo_learner) = Inr q1" using ok by blast
  obtain q2 where q2: "?init (ApproxObj ?a) = Inr q2" using ok by blast
  obtain q3 where q3: "?init (Plain PNone) = Inr q3" using ok by blast
  note b1 = model_binding [of demo_learner q1 ?a "Plain (PState [NdArray [1]])"
        "ActionObj demo_actions" "Plain (PInt (IntV 2))" NoProcessors NoProcessors q1]
  note b2 = model_binding [of demo_learner q2 ?a "Plain (PState [NdArray [1]])"
        "ActionObj demo_actions" "Plain (PInt (IntV 2))" NoProcessors NoProcessors q2]
  note b3 = model_binding [of demo_learner q3 ?a "Plain (PState [NdArray [1]])"
        "ActionObj demo_actions" "Plain (PInt (IntV 2))" NoProcessors NoProcessors q3]
  have "states q1 = PState [NdArray [1]]" "actions q1 = demo_actions"
    using q1 b1 by (simp_all add: get_states_def get_actions_def)
  then show ?thesis
    using q1 q2 q3 b1 b2 b3 by auto
qed

subsection \<open>Methods that ask the inner model\<close>

text \<open>
  C9. \<open>is_recurrent\<close> never returns normally: its body raises what the model's
  \<open>is_recurrent\<close> returns, so when that is an ordinary boolean the \<open>raise\<close> statement
  itself fails with a \<open>TypeError\<close> and the boolean is not returned.
\<close>

theorem is_recurrent_never_returns:
  "(\<exists>e. is_recurrent p = Inl e) \<and>
   (call_method0 (model p) ''is_recurrent'' = Inr (PInt (BoolV b)) \<longrightarrow>
      is_recurrent p = Inl TypeError)"
  by (auto simp: is_recurrent_def split: sum.splits)

theorem is_recurrent_never_returns_witness:
  "call_method0 (model demo_policy) ''is_recurrent'' = Inr (PInt (BoolV False)) \<and>
   is_recurrent demo_policy = Inl TypeError"
proof -
  have h: "call_method0 (model demo_policy) ''is_recurrent'' = Inr (PInt (BoolV False))"
    by (simp add: demo_policy_def demo_learner_def)
  from is_recurrent_never_returns [of demo_policy False] h show ?thesis by blast
qed

lemma reset_preprocessors_trace:
  "reset_preprocessors fs i p =
     p\<lparr>trace := trace p @ map PreprocessorReset [i..<i + length fs]\<rparr>"
  by (induction fs arbitrary: i p) (simp_all del: upt_Suc add: upt_conv_Cons)

lemma reset_postprocessors_trace:
  "reset_postprocessors fs i p =
     p\<lparr>trace := trace p @ map PostprocessorReset [i..<i + length fs]\<rparr>"
  by (induction fs arbitrary: i p) (simp_all del: upt_Suc add: upt_conv_Cons)

text \<open>
  C10. For a policy whose model is \<open>None\<close>, the five methods \<open>parameters\<close>,
  \<open>named_parameters\<close>, \<open>list_parameters\<close>, \<open>hyperparameters\<close> and \<open>named_hyperparameters\<close>
  return the empty list and \<open>list_hyperparameters\<close> returns \<open>None\<close>; \<open>reset\<close> raises
  (\<open>AttributeError\<close>, from \<open>self.model.reset()\<close>) once it has reset every preprocessor and
  every postprocessor in order, whatever its argument \<open>reset_processors\<close>.
\<close>

theorem none_model_methods:
  "model p = Plain PNone \<longrightarrow>
     parameters p = Inr (PList []) \<and> named_parameters p = Inr (PList []) \<and>
     list_parameters p = Inr (PList []) \<and> hyperparameters p = Inr (PList []) \<and>
     named_hyperparameters p = Inr (PList []) \<and> list_hyperparameters p = Inr PNone \<and>
     reset reset_processors p =
       (Inl AttributeError,
        p\<lparr>trace := trace p @ map PreprocessorReset [0..<length (preprocessors p)]
                            @ map PostprocessorReset [0..<length (postprocessors p)]\<rparr>)"
  by (simp add: parameters_def named_parameters_def list_parameters_def hyperparameters_def
      named_hyperparameters_def list_hyperparameters_def reset_def Let_def
      reset_preprocessors_trace reset_postprocessors_trace)

theorem none_model_methods_witness:
  "model none_model_policy = Plain PNone \<and>
   parameters none_model_policy = Inr (PList []) \<and>
   list_hyperparameters none_model_policy = Inr PNone \<and>
   reset True none_model_policy =
     (Inl AttributeError, none_model_policy\<lparr>trace := [PreprocessorReset 0]\<rparr>) \<and>
   reset False none_model_policy =
     (Inl AttributeError, none_model_policy\<lparr>trace := [PreprocessorReset 0]\<rparr>)"
proof -
  have h: "model none_model_policy = Plain PNone"
    by (simp add: none_model_policy_def)
  have t: "trace none_model_policy = []" "length (preprocessors none_model_policy) = 1"
     "length (postprocessors none_model_policy) = 0"
    by (simp_all add: none_model_policy_def demo_policy_def)
  from none_model_methods [of none_model_policy True]
       none_model_methods [of none_model_policy False] h t
  show ?thesis by simp
qed

subsection \<open>Calling the policy\<close>

lemmas act_defs =
  act_def py_mod_def compute_action_data_def resolve_state_def Policy_predict_def
  log_event_def assign_action_data_def dispatch_pair_def np_argmax_array_def torch_argmax_def
  set_data_def set_item_def set_torch_data_def convert_to_numpy_def finish_act_def Let_def

lemmas demo_defs =
  demo_policy_def demo_learner_def demo_actions_def wrap_in_list_def

text \<open>
  C2. Calling the policy object is meant to be the call of \<open>act\<close> with the same arguments.
  The body of \<open>__call__\<close> names \<open>args\<close> and \<open>kwargs\<close>, which its signature does not bind:
  every call raises \<open>NameError\<close> and leaves the policy untouched, also where \<open>act\<close> with the
  same arguments returns action data.
\<close>

theorem call_raises_NameError:
  "Policy_call state deterministic to_numpy return_logits apply_action p = (Inl NameError, p) \<and>
   fst (act PNone True True False True demo_policy) = Inr (PList [NdArray [1], NdArray [2, 7]])"
  by (simp add: Policy_call_def name_bound_def call_parameters_def module_names_def
      act_defs demo_defs)

subsection \<open>The prediction pipeline of \<open>act\<close>\<close>

lemma apply_preprocessors_eq:
  "apply_preprocessors fs i s p =
     (apply_in_order fs s, p\<lparr>trace := trace p @ calls_in_order PreprocessorCall fs i s\<rparr>)"
  by (induction fs arbitrary: i s p) (simp_all add: log_event_def)

lemma apply_postprocessors_eq:
  "apply_postprocessors fs i p =
     p\<lparr>action_data := apply_in_order fs (action_data p),
       trace := trace p @ calls_in_order PostprocessorCall fs i (action_data p)\<rparr>"
  by (induction fs arbitrary: i p) (simp_all add: log_event_def)

lemma Policy_predict_eq:
  "Policy_predict s False True False p =
     (case model_predict (model p) s of
        None \<Rightarrow> (Inl AttributeError, p)
      | Some d \<Rightarrow> (Inr d, p\<lparr>trace := trace p @ [PredictCall s]\<rparr>))"
  by (cases "model p") (auto simp: Policy_predict_def log_event_def)

lemma resolve_state_eq:
  "resolve_state state p = unwrap_state (if state = PNone then states p else state)"
  by (cases "(if state = PNone then states p else state)" rule: unwrap_state.cases)
     (simp_all add: resolve_state_def)

lemma compute_action_data_eq:
  "compute_action_data state p =
     (let s0 = resolve_state state p;
          s = apply_in_order (preprocessors p) s0;
          pre_calls = calls_in_order PreprocessorCall (preprocessors p) 0 s0
      in case model_predict (model p) s of
           None \<Rightarrow> (Inl AttributeError, p\<lparr>trace := trace p @ pre_calls\<rparr>)
         | Some d \<Rightarrow>
             (let out = apply_in_order (postprocessors p) d
              in (Inr (),
                  p\<lparr>action_data := (if isinstance_list out then out else PList [out]),
                    trace := trace p @ pre_calls @ [PredictCall s]
                             @ calls_in_order PostprocessorCall (postprocessors p) 0 d\<rparr>)))"
  by (simp add: compute_action_data_def apply_preprocessors_eq Policy_predict_eq
      apply_postprocessors_eq Let_def split: option.splits)

lemma calls_in_order_count:
  assumes "\<And>i x. mk i x \<noteq> ev"
  shows "count_list (calls_in_order mk fs i x) ev = 0"
  using assms by (induction fs arbitrary: i x) simp_all

lemma calls_in_order_no_predict:
  assumes "\<And>i x. \<not> is_predict_call (mk i x)"
  shows "filter is_predict_call (calls_in_order mk fs i x) = []"
  using assms by (induction fs arbitrary: i x) simp_all

lemma compute_action_data_frame:
  assumes "compute_action_data state p = (r, p1)"
  shows "cnt p1 = cnt p \<and> count_list (trace p1) ActionsCall = count_list (trace p) ActionsCall"
  using assms
  by (auto simp: compute_action_data_eq Let_def calls_in_order_count split: option.splits)

subsection \<open>The loop over the actions\<close>

text \<open>\<open>argmax\<close> returns the position of the first greatest element.\<close>

lemma argmax_None [simp]: "argmax xs = None \<longleftrightarrow> xs = []"
  by (cases xs) simp_all

lemma argmax_scan_spec:
  "(argmax_scan xs i best bv = best \<and> (\<forall>x\<in>set xs. x \<le> bv)) \<or>
   (\<exists>j<length xs. argmax_scan xs i best bv = i + j \<and> bv < xs ! j \<and>
       (\<forall>x\<in>set xs. x \<le> xs ! j) \<and> (\<forall>l<j. xs ! l < xs ! j))"
proof (induction xs arbitrary: i best bv)
  case Nil
  then show ?case by simp
next
  case (Cons y ys)
  show ?case
  proof (cases "bv < y")
    case True
    from Cons.IH [of "Suc i" i y] show ?thesis
    proof
      assume h: "argmax_scan ys (Suc i) i y = i \<and> (\<forall>x\<in>set ys. x \<le> y)"
      have "\<exists>j<length (y # ys). argmax_scan (y # ys) i best bv = i + j \<and> bv < (y # ys) ! j \<and>
          (\<forall>x\<in>set (y # ys). x \<le> (y # ys) ! j) \<and> (\<forall>l<j. (y # ys) ! l < (y # ys) ! j)"
        using h True by (intro exI [of _ 0]) simp
      then show ?thesis ..
    next
      assume "\<exists>j<length ys. argmax_scan ys (Suc i) i y = Suc i + j \<and> y < ys ! j \<and>
          (\<forall>x\<in>set ys. x \<le> ys ! j) \<and> (\<forall>l<j. ys ! l < ys ! j)"
      then obtain j where j: "j < length ys" "argmax_scan ys (Suc i) i y = Suc i + j"
        "y < ys ! j" "\<forall>x\<in>set ys. x \<le> ys ! j" "\<forall>l<j. ys ! l < ys ! j" by blast
      have "\<exists>j<length (y # ys). argmax_scan (y # ys) i best bv = i + j \<and> bv < (y # ys) ! j \<and>
          (\<forall>x\<in>set (y # ys). x \<le> (y # ys) ! j) \<and> (\<forall>l<j. (y # ys) ! l < (y # ys) ! j)"
        using j True by (intro exI [of _ "Suc j"]) (auto simp: nth_Cons split: nat.splits)
      then show ?thesis ..
    qed
  next
    case False
    from Cons.IH [of "Suc i" best bv] show ?thesis
    proof
      assume "argmax_scan ys (Suc i) best bv = best \<and> (\<forall>x\<in>set ys. x \<le> bv)"
      with False show ?thesis by simp
    next
      assume "\<exists>j<length ys. argmax_scan ys (Suc i) best bv = Suc i + j \<and> bv < ys ! j \<and>
          (\<forall>x\<in>set ys. x \<le> ys ! j) \<and> (\<forall>l<j. ys ! l < ys ! j)"
      then obtain j where j: "j < length ys" "argmax_scan ys (Suc i) best bv = Suc i + j"
        "bv < ys ! j" "\<forall>x\<in>set ys. x \<le> ys ! j" "\<forall>l<j. ys ! l < ys ! j" by blast
      have "\<exists>j<length (y # ys). argmax_scan (y # ys) i best bv = i + j \<and> bv < (y # ys) ! j \<and>
          (\<forall>x\<in>set (y # ys). x \<le> (y # ys) ! j) \<and> (\<forall>l<j. (y # ys) ! l < (y # ys) ! j)"
        using j False by (intro exI [of _ "Suc j"]) (auto simp: nth_Cons split: nat.splits)
      then show ?thesis ..
    qed
  qed
qed

lemma argmax_first_maximum:
  assumes "argmax xs = Some j"
  shows "j < length xs \<and> (\<forall>x\<in>set xs. x \<le> xs ! j) \<and> (\<forall>l<j. xs ! l < xs ! j)"
proof (cases xs)
  case Nil
  with assms show ?thesis by simp
next
  case (Cons y ys)
  with assms have j: "j = argmax_scan ys 1 0 y" by simp
  from argmax_scan_spec [of ys 1 0 y] show ?thesis
  proof
    assume "argmax_scan ys 1 0 y = 0 \<and> (\<forall>x\<in>set ys. x \<le> y)"
    with j Cons show ?thesis by simp
  next
    assume "\<exists>k<length ys. argmax_scan ys 1 0 y = 1 + k \<and> y < ys ! k \<and>
        (\<forall>x\<in>set ys. x \<le> ys ! k) \<and> (\<forall>l<k. ys ! l < ys ! k)"
    then obtain k where k: "k < length ys" "argmax_scan ys 1 0 y = 1 + k" "y < ys ! k"
      "\<forall>x\<in>set ys. x \<le> ys ! k" "\<forall>l<k. ys ! l < ys ! k" by blast
    with j Cons show ?thesis by (auto simp: nth_Cons split: nat.splits)
  qed
qed

lemma dispatch_pair_frame:
  assumes "dispatch_pair idx a d tn rl p = (r, p')"
  shows "trace p' = trace p \<and> cnt p' = cnt p \<and>
         length (actions p') = length (actions p) \<and>
         length (list_items (action_data p')) = length (list_items (action_data p)) \<and>
         (isinstance_list (action_data p) \<longrightarrow> isinstance_list (action_data p')) \<and>
         (\<forall>k. k \<noteq> idx \<longrightarrow> actions p' ! k = actions p ! k \<and>
              list_items (action_data p') ! k = list_items (action_data p) ! k)"
  using assms
  by (auto simp: dispatch_pair_def set_data_def set_torch_data_def set_item_def Let_def
        np_argmax_array_def torch_argmax_def
        split: if_splits pyval.splits sum.splits option.splits)

lemma dispatch_frame:
  assumes "dispatch pairs idx tn rl p = (r, p')"
  shows "trace p' = trace p \<and> cnt p' = cnt p \<and>
         length (actions p') = length (actions p) \<and>
         length (list_items (action_data p')) = length (list_items (action_data p)) \<and>
         (isinstance_list (action_data p) \<longrightarrow> isinstance_list (action_data p')) \<and>
         (\<forall>k<idx. actions p' ! k = actions p ! k \<and>
              list_items (action_data p') ! k = list_items (action_data p) ! k)"
  using assms
proof (induction pairs arbitrary: idx p)
  case Nil
  then show ?case by simp
next
  case (Cons ad rest)
  obtain a d where ad: "ad = (a, d)" by (cases ad)
  obtain r1 p1 where step: "dispatch_pair idx a d tn rl p = (r1, p1)"
    by (cases "dispatch_pair idx a d tn rl p")
  note f1 = dispatch_pair_frame [OF step]
  show ?case
  proof (cases r1)
    case (Inl e)
    with Cons.prems ad step have "p' = p1" by simp
    with f1 show ?thesis by simp
  next
    case (Inr u)
    with Cons.prems ad step have "dispatch rest (Suc idx) tn rl p1 = (r, p')" by simp
    from Cons.IH [OF this] f1 show ?thesis by simp
  qed
qed

lemma dispatch_pair_returns:
  assumes "dispatchable a d"
  shows "\<exists>q. dispatch_pair idx a d tn rl p = (Inr (), q)"
  using assms
  by (cases d)
     (auto simp: dispatch_pair_def Let_def np_argmax_array_def torch_argmax_def
        split: option.splits)

lemma dispatch_pair_assigns:
  assumes "dispatch_pair idx a d tn rl p = (Inr (), q)"
      and "idx < length (actions p)" "idx < length (list_items (action_data p))"
      and "list_items (action_data p) ! idx = d"
  shows "assigned idx a d tn rl q"
  using assms
  by (cases d)
     (auto simp: dispatch_pair_def assigned_def set_data_def set_torch_data_def set_item_def
        Let_def np_argmax_array_def torch_argmax_def split: option.splits if_splits)

lemma dispatch_pair_TypeError:
  assumes "\<not> isinstance_ndarray d" "\<not> isinstance_Tensor d"
  shows "dispatch_pair idx a d tn rl p = (Inl TypeError, p)"
  using assms by (cases d) (simp_all add: dispatch_pair_def)

lemma assigned_cong:
  assumes "actions q' ! k = actions q ! k"
      "list_items (action_data q') ! k = list_items (action_data q) ! k"
  shows "assigned k a d tn rl q' = assigned k a d tn rl q"
  using assms by (simp add: assigned_def split: pyval.splits option.splits)

lemma dispatch_assigns:
  assumes "dispatch pairs idx tn rl p = (r, p')"
      and "idx + length pairs \<le> length (actions p)"
      and "idx + length pairs \<le> length (list_items (action_data p))"
      and "\<forall>i<length pairs. snd (pairs ! i) = list_items (action_data p) ! (idx + i)"
      and "j < length pairs"
      and "\<forall>i\<le>j. dispatchable (fst (pairs ! i)) (snd (pairs ! i))"
  shows "assigned (idx + j) (fst (pairs ! j)) (snd (pairs ! j)) tn rl p'"
  using assms
proof (induction pairs arbitrary: idx p j)
  case Nil
  then show ?case by simp
next
  case (Cons ad rest)
  obtain a d where ad: "ad = (a, d)" by (cases ad)
  from Cons.prems(6) ad have "dispatchable a d" by fastforce
  then obtain p1 where step: "dispatch_pair idx a d tn rl p = (Inr (), p1)"
    using dispatch_pair_returns [of a d idx tn rl p] by auto
  from Cons.prems(4) ad have item: "list_items (action_data p) ! idx = d" by fastforce
  have as: "assigned idx a d tn rl p1"
    using dispatch_pair_assigns [OF step _ _ item] Cons.prems(2,3) by simp
  note f1 = dispatch_pair_frame [OF step]
  from Cons.prems(1) ad step have rest: "dispatch rest (Suc idx) tn rl p1 = (r, p')" by simp
  note f2 = dispatch_frame [OF rest]
  show ?case
  proof (cases j)
    case 0
    from f2 have "actions p' ! idx = actions p1 ! idx"
      "list_items (action_data p') ! idx = list_items (action_data p1) ! idx" by simp_all
    from assigned_cong [OF this] as 0 ad show ?thesis by simp
  next
    case (Suc j')
    have "assigned (Suc idx + j') (fst (rest ! j')) (snd (rest ! j')) tn rl p'"
    proof (rule Cons.IH [OF rest])
      show "Suc idx + length rest \<le> length (actions p1)" using Cons.prems(2) f1 by simp
      show "Suc idx + length rest \<le> length (list_items (action_data p1))"
        using Cons.prems(3) f1 by simp
      show "\<forall>i<length rest. snd (rest ! i) = list_items (action_data p1) ! (Suc idx + i)"
      proof (intro allI impI)
        fix i assume i: "i < length rest"
        then have "Suc i < length (ad # rest)" by simp
        with Cons.prems(4) have "snd ((ad # rest) ! Suc i) =
            list_items (action_data p) ! (idx + Suc i)" by blast
        moreover have "list_items (action_data p1) ! (Suc idx + i) =
            list_items (action_data p) ! (Suc idx + i)" using f1 by simp
        ultimately show "snd (rest ! i) = list_items (action_data p1) ! (Suc idx + i)"
          by simp
      qed
      show "j' < length rest" using Cons.prems(5) Suc by simp
      show "\<forall>i\<le>j'. dispatchable (fst (rest ! i)) (snd (rest ! i))"
        using Cons.prems(6) Suc by fastforce
    qed
    with Suc show ?thesis by simp
  qed
qed

lemma dispatch_raises:
  assumes "j < length pairs"
      and "\<forall>i<j. dispatchable (fst (pairs ! i)) (snd (pairs ! i))"
      and "\<not> isinstance_ndarray (snd (pairs ! j))" "\<not> isinstance_Tensor (snd (pairs ! j))"
  shows "fst (dispatch pairs idx tn rl p) = Inl TypeError"
  using assms
proof (induction pairs arbitrary: idx p j)
  case Nil
  then show ?case by simp
next
  case (Cons ad rest)
  obtain a d where ad: "ad = (a, d)" by (cases ad)
  show ?case
  proof (cases j)
    case 0
    with Cons.prems(3,4) ad show ?thesis by (simp add: dispatch_pair_TypeError)
  next
    case (Suc j')
    with Cons.prems(2) ad have "dispatchable a d" by fastforce
    then obtain p1 where step: "dispatch_pair idx a d tn rl p = (Inr (), p1)"
      using dispatch_pair_returns [of a d idx tn rl p] by auto
    have "fst (dispatch rest (Suc idx) tn rl p1) = Inl TypeError"
    proof (rule Cons.IH [of j' "Suc idx" p1])
      show "j' < length rest" using Cons.prems(1) Suc by simp
      show "\<forall>i<j'. dispatchable (fst (rest ! i)) (snd (rest ! i))"
        using Cons.prems(2) Suc by fastforce
      show "\<not> isinstance_ndarray (snd (rest ! j'))" using Cons.prems(3) Suc by simp
      show "\<not> isinstance_Tensor (snd (rest ! j'))" using Cons.prems(4) Suc by simp
    qed
    with ad step show ?thesis by simp
  qed
qed

lemma dispatch_returns:
  assumes "\<forall>i<length pairs. dispatchable (fst (pairs ! i)) (snd (pairs ! i))"
  shows "\<exists>q. dispatch pairs idx tn rl p = (Inr (), q)"
  using assms
proof (induction pairs arbitrary: idx p)
  case Nil
  then show ?case by simp
next
  case (Cons ad rest)
  obtain a d where ad: "ad = (a, d)" by (cases ad)
  from Cons.prems ad have "dispatchable a d" by fastforce
  then obtain p1 where step: "dispatch_pair idx a d tn rl p = (Inr (), p1)"
    using dispatch_pair_returns [of a d idx tn rl p] by auto
  have "\<exists>q. dispatch rest (Suc idx) tn rl p1 = (Inr (), q)"
  proof (rule Cons.IH)
    show "\<forall>i<length rest. dispatchable (fst (rest ! i)) (snd (rest ! i))"
      using Cons.prems by fastforce
  qed
  with ad step show ?case by simp
qed

lemma assign_action_data_frame:
  assumes "assign_action_data tn rl p = (r, p')"
  shows "trace p' = trace p \<and> cnt p' = cnt p"
proof -
  obtain r1 p1 where d: "dispatch (zip (actions p) (list_items (action_data p))) 0 tn rl p = (r1, p1)"
    by (cases "dispatch (zip (actions p) (list_items (action_data p))) 0 tn rl p")
  from dispatch_frame [OF d] have "trace p1 = trace p" "cnt p1 = cnt p" by simp_all
  with assms d show ?thesis
    by (cases r1) (auto simp: assign_action_data_def split: if_splits)
qed

lemma compute_action_data_Inr:
  assumes "compute_action_data state p = (Inr (), p1)"
  shows "actions p1 = actions p \<and> isinstance_list (action_data p1)"
  using assms
  by (auto simp: compute_action_data_eq Let_def split: option.splits if_splits)

lemma isinstance_list_items: "isinstance_list v \<Longrightarrow> v = PList (list_items v)"
  by (cases v) simp_all

text \<open>
  On a prediction tick, what \<open>act\<close> returns and leaves once the prediction is computed:
  the exception of the loop, or the data the loop leaves, a list of one element giving
  way to that element.
\<close>

lemma act_after_compute:
  assumes tick: "py_mod (cnt p) (rate p) = Inr 0"
      and comp: "compute_action_data state p = (Inr (), p1)"
      and run: "dispatch (zip (actions p1) (list_items (action_data p1))) 0 tn rl p1 = (r, q)"
  shows "actions (snd (act state det tn rl ap p)) = actions q \<and>
         (case r of
            Inl e \<Rightarrow> fst (act state det tn rl ap p) = Inl e
          | Inr u \<Rightarrow> fst (act state det tn rl ap p) =
              Inr (if length (list_items (action_data q)) = 1
                   then list_items (action_data q) ! 0
                   else PList (list_items (action_data q))))"
proof -
  from compute_action_data_Inr [OF comp] have "isinstance_list (action_data p1)" by simp
  with dispatch_frame [OF run] have "isinstance_list (action_data q)" by simp
  from isinstance_list_items [OF this] have q: "action_data q = PList (list_items (action_data q))" .
  show ?thesis
  proof (cases r)
    case (Inl e)
    with tick comp run show ?thesis by (simp add: act_def assign_action_data_def)
  next
    case (Inr u)
    with tick comp run \<open>isinstance_list (action_data q)\<close> q show ?thesis
      by (auto simp: act_def assign_action_data_def finish_act_def log_event_def Let_def)
  qed
qed

text \<open>
  C4, as amended. On a prediction tick the loop of \<open>act\<close> visits the pairs zipped from the
  actions and the list of action data in order. For the pair at position \<open>k\<close> that the loop
  reaches (every pair before it was an array or a tensor, not empty where its action is
  discrete): a discrete action with a non-empty array gets as \<open>data\<close> the one-element array
  of the array's \<open>argmax\<close>, and when \<open>act\<close> returns, the item at position \<open>k\<close> of the
  returned action data is that array if \<open>return_logits\<close> is false and the logits
  otherwise; a discrete action with a non-empty tensor gets as \<open>torch_data\<close> the \<open>argmax\<close>
  along dimension 0; a continuous action gets the data itself, as \<open>data\<close> for an array and
  as \<open>torch_data\<close> for a tensor; data of any other type makes \<open>act\<close> raise \<open>TypeError\<close>.
  The returned item of a tensor is the value the loop converts. When no pair is rejected
  \<open>act\<close> returns.
\<close>

theorem dispatch_discrete_continuous:
  fixes p p1 :: policy and k :: nat
    and deterministic to_numpy return_logits apply_action :: bool
  assumes tick: "py_mod (cnt p) (rate p) = Inr 0"
      and comp: "compute_action_data state p = (Inr (), p1)"
  defines "ds \<equiv> list_items (action_data p1)"
  defines "res \<equiv> act state deterministic to_numpy return_logits apply_action p"
  assumes k: "k < length (actions p)" "k < length ds"
      and reach: "\<forall>i<k. dispatchable (actions p ! i) (ds ! i)"
  shows
   "(is_discrete (actions p ! k) \<and> ds ! k = NdArray xs \<and> xs \<noteq> [] \<longrightarrow>
       (\<exists>j. argmax xs = Some j \<and> data (actions (snd res) ! k) = NdArray [real j] \<and>
            (\<forall>v. fst res = Inr v \<longrightarrow>
               item_of_returned v (length ds) k =
                 Some (if return_logits then NdArray xs else NdArray [real j])))) \<and>
    (is_discrete (actions p ! k) \<and> ds ! k = Tensor g xs \<and> xs \<noteq> [] \<longrightarrow>
       (\<exists>j. argmax xs = Some j \<and> torch_data (actions (snd res) ! k) = Tensor False [real j] \<and>
            (\<forall>v. fst res = Inr v \<longrightarrow>
               item_of_returned v (length ds) k =
                 Some (convert_to_numpy
                         (if return_logits then Tensor g xs else Tensor False [real j])
                         to_numpy)))) \<and>
    (\<not> is_discrete (actions p ! k) \<and> isinstance_ndarray (ds ! k) \<longrightarrow>
       data (actions (snd res) ! k) = ds ! k \<and>
       (\<forall>v. fst res = Inr v \<longrightarrow> item_of_returned v (length ds) k = Some (ds ! k))) \<and>
    (\<not> is_discrete (actions p ! k) \<and> isinstance_Tensor (ds ! k) \<longrightarrow>
       torch_data (actions (snd res) ! k) = ds ! k \<and>
       (\<forall>v. fst res = Inr v \<longrightarrow>
          item_of_returned v (length ds) k = Some (convert_to_numpy (ds ! k) to_numpy))) \<and>
    (\<not> isinstance_ndarray (ds ! k) \<and> \<not> isinstance_Tensor (ds ! k) \<longrightarrow>
       fst res = Inl TypeError) \<and>
    ((\<forall>i<min (length (actions p)) (length ds). dispatchable (actions p ! i) (ds ! i)) \<longrightarrow>
       (\<exists>v. fst res = Inr v))"
proof -
  from compute_action_data_Inr [OF comp] have a1: "actions p1 = actions p" by simp
  let ?pairs = "zip (actions p1) ds"
  obtain r q where run: "dispatch ?pairs 0 to_numpy return_logits p1 = (r, q)"
    by (cases "dispatch ?pairs 0 to_numpy return_logits p1")
  note after = act_after_compute [OF tick comp run [unfolded ds_def],
      of deterministic apply_action, folded res_def]
  note frame = dispatch_frame [OF run]
  have len: "0 + length ?pairs \<le> length (actions p1)"
    "0 + length ?pairs \<le> length (list_items (action_data p1))"
    by (simp_all add: ds_def)
  have kp: "k < length ?pairs" using k a1 by simp
  have nth: "fst (?pairs ! i) = actions p ! i \<and> snd (?pairs ! i) = ds ! i"
    if "i < length ?pairs" for i using that a1 by simp
  have items: "\<forall>i<length ?pairs. snd (?pairs ! i) = list_items (action_data p1) ! (0 + i)"
    by (simp add: ds_def)
  have lenq: "length (list_items (action_data q)) = length ds"
    using frame by (simp add: ds_def)
  have acts: "actions (snd res) = actions q" using after by simp
  have ret: "item_of_returned v (length ds) k = Some (list_items (action_data q) ! k)"
    if "fst res = Inr v" for v
  proof (cases r)
    case (Inl e)
    with after that show ?thesis by simp
  next
    case (Inr u)
    with after that have v: "v = (if length (list_items (action_data q)) = 1
                   then list_items (action_data q) ! 0
                   else PList (list_items (action_data q)))" by simp
    show ?thesis
    proof (cases "length ds = 1")
      case True
      with k(2) have "k = 0" by simp
      with True v lenq show ?thesis by (simp add: item_of_returned_def)
    next
      case False
      with v lenq k(2) show ?thesis by (simp add: item_of_returned_def)
    qed
  qed
  have as: "assigned k (actions p ! k) (ds ! k) to_numpy return_logits q"
    if "dispatchable (actions p ! k) (ds ! k)"
  proof -
    have "\<forall>i\<le>k. dispatchable (fst (?pairs ! i)) (snd (?pairs ! i))"
      using reach that kp nth by (auto simp: le_less)
    from dispatch_assigns [OF run len items kp this] nth [OF kp] show ?thesis by simp
  qed
  have c1: "\<exists>j. argmax xs = Some j \<and> data (actions (snd res) ! k) = NdArray [real j] \<and>
            (\<forall>v. fst res = Inr v \<longrightarrow>
               item_of_returned v (length ds) k =
                 Some (if return_logits then NdArray xs else NdArray [real j]))"
    if "is_discrete (actions p ! k)" "ds ! k = NdArray xs" "xs \<noteq> []"
    using as that ret acts by (auto simp: assigned_def split: option.splits)
  have c2: "\<exists>j. argmax xs = Some j \<and> torch_data (actions (snd res) ! k) = Tensor False [real j] \<and>
            (\<forall>v. fst res = Inr v \<longrightarrow>
               item_of_returned v (length ds) k =
                 Some (convert_to_numpy
                         (if return_logits then Tensor g xs else Tensor False [real j])
                         to_numpy))"
    if "is_discrete (actions p ! k)" "ds ! k = Tensor g xs" "xs \<noteq> []"
    using as that ret acts by (auto simp: assigned_def split: option.splits)
  have c3: "data (actions (snd res) ! k) = ds ! k \<and>
       (\<forall>v. fst res = Inr v \<longrightarrow> item_of_returned v (length ds) k = Some (ds ! k))"
    if "\<not> is_discrete (actions p ! k)" "isinstance_ndarray (ds ! k)"
    using as that ret acts by (cases "ds ! k") (auto simp: assigned_def)
  have c4: "torch_data (actions (snd res) ! k) = ds ! k \<and>
       (\<forall>v. fst res = Inr v \<longrightarrow>
          item_of_returned v (length ds) k = Some (convert_to_numpy (ds ! k) to_numpy))"
    if "\<not> is_discrete (actions p ! k)" "isinstance_Tensor (ds ! k)"
    using as that ret acts by (cases "ds ! k") (auto simp: assigned_def)
  have c5: "fst res = Inl TypeError"
    if "\<not> isinstance_ndarray (ds ! k)" "\<not> isinstance_Tensor (ds ! k)"
  proof -
    have "\<forall>i<k. dispatchable (fst (?pairs ! i)) (snd (?pairs ! i))"
      using reach kp nth by auto
    moreover have "\<not> isinstance_ndarray (snd (?pairs ! k))" "\<not> isinstance_Tensor (snd (?pairs ! k))"
      using that nth [OF kp] by simp_all
    ultimately have "fst (dispatch ?pairs 0 to_numpy return_logits p1) = Inl TypeError"
      using dispatch_raises [OF kp] by blast
    with run have "r = Inl TypeError" by simp
    with after show ?thesis by simp
  qed
  have c6: "\<exists>v. fst res = Inr v"
    if "\<forall>i<min (length (actions p)) (length ds). dispatchable (actions p ! i) (ds ! i)"
  proof -
    have "\<forall>i<length ?pairs. dispatchable (fst (?pairs ! i)) (snd (?pairs ! i))"
      using that a1 by simp
    from dispatch_returns [OF this, of 0 to_numpy return_logits p1] run
    obtain u where "r = Inr u" by auto
    with after show ?thesis by simp
  qed
  show ?thesis using c1 c2 c3 c4 c5 c6 by blast
qed

lemmas eval_defs = act_defs demo_defs

lemma compute_four:
  "\<exists>p1. compute_action_data PNone four_policy = (Inr (), p1) \<and>
        list_items (action_data p1) = four_data"
  by (simp add: four_policy_def four_learner_def four_data_def compute_action_data_def
      resolve_state_def Policy_predict_def log_event_def Let_def demo_defs)

lemma compute_single:
  "\<exists>p1. compute_action_data PNone single_policy = (Inr (), p1) \<and>
        list_items (action_data p1) = [NdArray [1, 5, 3]]"
  by (simp add: single_policy_def single_learner_def compute_action_data_def
      resolve_state_def Policy_predict_def log_event_def Let_def demo_defs)

lemma compute_bad:
  "\<exists>p1. compute_action_data PNone bad_data_policy = (Inr (), p1) \<and>
        list_items (action_data p1) = [PInt (IntV 7)]"
  by (simp add: bad_data_policy_def bad_data_learner_def compute_action_data_def
      resolve_state_def Policy_predict_def log_event_def Let_def demo_defs)

theorem dispatch_discrete_continuous_witness:
  "data (actions (snd (act PNone True True False True four_policy)) ! 0) = NdArray [1] \<and>
   torch_data (actions (snd (act PNone True True False True four_policy)) ! 1)
     = Tensor False [0] \<and>
   data (actions (snd (act PNone True True False True four_policy)) ! 2) = NdArray [6] \<and>
   torch_data (actions (snd (act PNone True True False True four_policy)) ! 3)
     = Tensor True [2, 7] \<and>
   (\<exists>v. fst (act PNone True True False True four_policy) = Inr v \<and>
        item_of_returned v 4 0 = Some (NdArray [1]) \<and>
        item_of_returned v 4 1 = Some (NdArray [0]) \<and>
        item_of_returned v 4 2 = Some (NdArray [6]) \<and>
        item_of_returned v 4 3 = Some (NdArray [2, 7])) \<and>
   (\<exists>v. fst (act PNone True True True True four_policy) = Inr v \<and>
        item_of_returned v 4 0 = Some (NdArray [1, 5, 3])) \<and>
   (\<exists>v. fst (act PNone True True False True single_policy) = Inr v \<and>
        item_of_returned v 1 0 = Some (NdArray [1])) \<and>
   fst (act PNone True True False True bad_data_policy) = Inl TypeError"
proof -
  have am: "argmax [1, 5, 3] = Some 1" "argmax [4, 2] = Some 0" by simp_all
  \<comment> \<open>the policy with four actions\<close>
  have tick4: "py_mod (cnt four_policy) (rate four_policy) = Inr 0"
    by (simp add: four_policy_def demo_policy_def py_mod_def)
  obtain p4 where comp4: "compute_action_data PNone four_policy = (Inr (), p4)"
    and items4: "list_items (action_data p4) = four_data"
    using compute_four by blast
  have acts4: "actions four_policy = four_actions" by (simp add: four_policy_def)
  have ok4: "\<forall>i<4. dispatchable (four_actions ! i) (four_data ! i)"
    by (simp add: four_actions_def four_data_def less_Suc_eq numeral_nat less_Suc_eq_0_disj)
  have k4: "k < length (actions four_policy)" "k < length (list_items (action_data p4))"
    if "k < 4" for k
    using that by (simp_all add: acts4 items4 four_actions_def four_data_def)
  have reach4: "\<forall>i<k. dispatchable (actions four_policy ! i) (list_items (action_data p4) ! i)"
    if "k \<le> 4" for k
    using ok4 that by (simp add: acts4 items4)
  have len4: "length (list_items (action_data p4)) = 4"
    by (simp add: items4 four_data_def)
  have all4: "\<forall>i<min (length (actions four_policy)) 4.
      dispatchable (actions four_policy ! i) (list_items (action_data p4) ! i)"
    using ok4 by (simp add: acts4 items4)
  note t = dispatch_discrete_continuous [where state = PNone and p = four_policy and ?p1.0 = p4
      and deterministic = True and to_numpy = True and apply_action = True,
      OF tick4 comp4 k4(1) k4(2) reach4, unfolded len4]
  have b: "(0::nat) < 4" "(1::nat) < 4" "(2::nat) < 4" "(3::nat) < 4"
    "(0::nat) \<le> 4" "(1::nat) \<le> 4" "(2::nat) \<le> 4" "(3::nat) \<le> 4"
    by simp_all
  note f0 = t [where k = 0 and return_logits = False and xs = "[1, 5, 3]", OF b(1) b(1) b(5)]
  note f1 = t [where k = 1 and return_logits = False and xs = "[4, 2]" and g = False,
      OF b(2) b(2) b(6)]
  note f2 = t [where k = 2 and return_logits = False, OF b(3) b(3) b(7)]
  note f3 = t [where k = 3 and return_logits = False, OF b(4) b(4) b(8)]
  note l0 = t [where k = 0 and return_logits = True and xs = "[1, 5, 3]", OF b(1) b(1) b(5)]
  obtain v where v: "fst (act PNone True True False True four_policy) = Inr v"
    using f0 all4 by blast
  obtain w where w: "fst (act PNone True True True True four_policy) = Inr w"
    using l0 all4 by blast
  have c0: "data (actions (snd (act PNone True True False True four_policy)) ! 0) = NdArray [1]
      \<and> item_of_returned v 4 0 = Some (NdArray [1])"
    using f0 am v by (simp add: acts4 items4 four_actions_def four_data_def)
  have c1: "torch_data (actions (snd (act PNone True True False True four_policy)) ! 1)
      = Tensor False [0] \<and> item_of_returned v 4 1 = Some (NdArray [0])"
    using f1 am v
    by (simp add: acts4 items4 four_actions_def four_data_def convert_to_numpy_def)
  have c2: "data (actions (snd (act PNone True True False True four_policy)) ! 2) = NdArray [6]
      \<and> item_of_returned v 4 2 = Some (NdArray [6])"
    using f2 v by (simp add: acts4 items4 four_actions_def four_data_def)
  have c3: "torch_data (actions (snd (act PNone True True False True four_policy)) ! 3)
      = Tensor True [2, 7] \<and> item_of_returned v 4 3 = Some (NdArray [2, 7])"
    using f3 v by (simp add: acts4 items4 four_actions_def four_data_def convert_to_numpy_def)
  have c4: "item_of_returned w 4 0 = Some (NdArray [1, 5, 3])"
    using l0 am w by (simp add: acts4 items4 four_actions_def four_data_def)
  \<comment> \<open>the policy with one action\<close>
  have tick1: "py_mod (cnt single_policy) (rate single_policy) = Inr 0"
    by (simp add: single_policy_def demo_policy_def py_mod_def)
  obtain p1 where comp1: "compute_action_data PNone single_policy = (Inr (), p1)"
    and items1: "list_items (action_data p1) = [NdArray [1, 5, 3]]"
    using compute_single by blast
  have acts1: "actions single_policy = [\<lparr> is_discrete = True, data = PNone, torch_data = PNone \<rparr>]"
    by (simp add: single_policy_def)
  note s0 = dispatch_discrete_continuous [where state = PNone and p = single_policy
      and ?p1.0 = p1 and deterministic = True and to_numpy = True and apply_action = True
      and k = 0 and return_logits = False and xs = "[1, 5, 3]", OF tick1 comp1]
  obtain u where u: "fst (act PNone True True False True single_policy) = Inr u"
    using s0 by (auto simp: acts1 items1)
  have c5: "item_of_returned u 1 0 = Some (NdArray [1])"
    using s0 am u by (simp add: acts1 items1)
  \<comment> \<open>the policy whose prediction is rejected\<close>
  have tickb: "py_mod (cnt bad_data_policy) (rate bad_data_policy) = Inr 0"
    by (simp add: bad_data_policy_def demo_policy_def py_mod_def)
  obtain pb where compb: "compute_action_data PNone bad_data_policy = (Inr (), pb)"
    and itemsb: "list_items (action_data pb) = [PInt (IntV 7)]"
    using compute_bad by blast
  have c6: "fst (act PNone True True False True bad_data_policy) = Inl TypeError"
    using dispatch_discrete_continuous [where state = PNone and p = bad_data_policy
      and ?p1.0 = pb and deterministic = True and to_numpy = True and apply_action = True
      and k = 0 and return_logits = False, OF tickb compb]
    by (simp add: itemsb bad_data_policy_def demo_policy_def demo_actions_def)
  from c0 c1 c2 c3 c4 c5 c6 v w u show ?thesis by blast
qed

text \<open>
  The claim as first stated covers every zipped pair. A discrete action whose data is an
  empty array makes \<open>np.argmax\<close> raise \<open>ValueError\<close>, and the action's \<open>data\<close> is not set;
  and a pair that comes after a rejected one is never visited: the continuous action
  after a discrete action with an integer keeps its \<open>data\<close>, the call having raised
  \<open>TypeError\<close> at the pair before.
\<close>

theorem dispatch_discrete_continuous_counterexample:
  "is_discrete (actions empty_logits_policy ! 0) \<and>
   action_data (snd (compute_action_data PNone empty_logits_policy)) = PList [NdArray []] \<and>
   fst (act PNone True True False True empty_logits_policy) = Inl ValueError \<and>
   data (actions (snd (act PNone True True False True empty_logits_policy)) ! 0) = PNone \<and>
   \<not> is_discrete (actions half_rejected_policy ! 1) \<and>
   action_data (snd (compute_action_data PNone half_rejected_policy))
     = PList [PInt (IntV 7), NdArray [6]] \<and>
   fst (act PNone True True False True half_rejected_policy) = Inl TypeError \<and>
   data (actions (snd (act PNone True True False True half_rejected_policy)) ! 1) = PNone"
  by (simp add: empty_logits_policy_def empty_logits_learner_def half_rejected_policy_def
      half_rejected_learner_def eval_defs)

subsection \<open>The three parts of \<open>act\<close>\<close>

lemma act_gated:
  assumes "int_of (rate p) \<noteq> 0" "cnt p mod int_of (rate p) \<noteq> 0"
  shows "act state det tn rl ap p =
     (Inr (action_data p),
      p\<lparr>trace := trace p @ (if ap then [ActionsCall] else []), cnt := cnt p + 1\<rparr>)"
  using assms by (simp add: act_def py_mod_def finish_act_def log_event_def Let_def)

lemma act_frame:
  assumes "act state det tn rl ap p = (r, p')"
  shows "(case r of
            Inl e \<Rightarrow> cnt p' = cnt p \<and> count_list (trace p') ActionsCall = count_list (trace p) ActionsCall
          | Inr d \<Rightarrow> cnt p' = cnt p + 1 \<and> d = action_data p' \<and>
              count_list (trace p') ActionsCall =
                count_list (trace p) ActionsCall + (if ap then 1 else 0))"
proof (cases "py_mod (cnt p) (rate p)")
  case (Inl e)
  with assms show ?thesis by (auto simp: act_def)
next
  case (Inr m)
  show ?thesis
  proof (cases "m = 0")
    case False
    with Inr assms show ?thesis
      by (auto simp: act_def finish_act_def log_event_def Let_def)
  next
    case True
    obtain r1 p1 where c: "compute_action_data state p = (r1, p1)"
      by (cases "compute_action_data state p")
    note f1 = compute_action_data_frame [OF c]
    show ?thesis
    proof (cases r1)
      case (Inl e)
      with Inr True c assms f1 show ?thesis by (auto simp: act_def)
    next
      case r1: (Inr u)
      obtain r2 p2 where a: "assign_action_data tn rl p1 = (r2, p2)"
        by (cases "assign_action_data tn rl p1")
      note f2 = assign_action_data_frame [OF a]
      show ?thesis
      proof (cases r2)
        case (Inl e)
        with Inr True c r1 a assms f1 f2 show ?thesis by (auto simp: act_def)
      next
        case (Inr u2)
        with \<open>py_mod (cnt p) (rate p) = Inr m\<close> True c r1 a assms f1 f2 show ?thesis
          by (auto simp: act_def finish_act_def log_event_def Let_def)
      qed
    qed
  qed
qed

lemma act_demo: "act PNone True True False True demo_policy = (Inr demo_result, demo_policy_after)"
  by (simp add: demo_policy_after_def demo_result_def eval_defs)

lemma act_bad: "\<exists>q. act PNone True True False True bad_data_policy = (Inl TypeError, q)"
  by (simp add: bad_data_policy_def bad_data_learner_def eval_defs)

text \<open>
  C1, as amended. For every policy whose inner model is a learning model or an approximator
  and whose tick counter satisfies \<open>cnt % rate == 0\<close>, a call of \<open>act\<close> first resolves the
  state (\<open>self.states\<close> for \<open>None\<close>, the merged data of a \<open>State\<close>, unwrapped when it has
  exactly one element), applies every preprocessor in list order, calls the model's
  \<open>predict\<close> exactly once on the processed state and applies every postprocessor in list
  order to the prediction; the result, made a list, is what the loop over the actions then
  works on. Nothing else of the policy changes up to there.
\<close>

theorem act_prediction_pipeline:
  fixes p :: policy and state :: pyval
  defines "s0 \<equiv> unwrap_state (if state = PNone then states p else state)"
  defines "s \<equiv> apply_in_order (preprocessors p) s0"
  assumes tick: "py_mod (cnt p) (rate p) = Inr 0"
      and pred: "model_predict (model p) s = Some d"
  defines "out \<equiv> apply_in_order (postprocessors p) d"
  defines "p1 \<equiv> p\<lparr>action_data := (if isinstance_list out then out else PList [out]),
                   trace := trace p @ calls_in_order PreprocessorCall (preprocessors p) 0 s0
                            @ [PredictCall s]
                            @ calls_in_order PostprocessorCall (postprocessors p) 0 d\<rparr>"
  shows "compute_action_data state p = (Inr (), p1) \<and>
         act state deterministic to_numpy return_logits apply_action p =
           (case assign_action_data to_numpy return_logits p1 of
              (Inl e, q) \<Rightarrow> (Inl e, q)
            | (Inr u, q) \<Rightarrow> finish_act apply_action q) \<and>
         length (filter is_predict_call (drop (length (trace p))
           (trace (snd (act state deterministic to_numpy return_logits apply_action p))))) = 1"
proof -
  have c: "compute_action_data state p = (Inr (), p1)"
    using pred
    by (simp add: compute_action_data_eq resolve_state_eq Let_def s_def s0_def out_def p1_def)
  have a: "act state deterministic to_numpy return_logits apply_action p =
           (case assign_action_data to_numpy return_logits p1 of
              (Inl e, q) \<Rightarrow> (Inl e, q)
            | (Inr u, q) \<Rightarrow> finish_act apply_action q)"
    using tick c by (simp add: act_def)
  obtain r2 p2 where as: "assign_action_data to_numpy return_logits p1 = (r2, p2)"
    by (cases "assign_action_data to_numpy return_logits p1")
  have t2: "trace p2 = trace p1" using assign_action_data_frame [OF as] by simp
  have new: "filter is_predict_call (drop (length (trace p)) (trace p1)) = [PredictCall s]"
    by (simp add: p1_def calls_in_order_no_predict)
  have "filter is_predict_call (drop (length (trace p))
           (trace (snd (act state deterministic to_numpy return_logits apply_action p))))
        = [PredictCall s]"
  proof (cases r2)
    case (Inl e)
    with a as t2 new show ?thesis by simp
  next
    case (Inr u)
    have "length (trace p) \<le> length (trace p1)" by (simp add: p1_def)
    with Inr a as t2 new show ?thesis
      by (simp add: finish_act_def log_event_def Let_def)
  qed
  with c a show ?thesis by simp
qed

theorem act_prediction_pipeline_witness:
  "py_mod (cnt demo_policy) (rate demo_policy) = Inr 0 \<and>
   compute_action_data PNone demo_policy =
     (Inr (), demo_policy\<lparr>action_data := PList [NdArray [1, 5, 3], Tensor True [2, 7]],
                  trace := [PreprocessorCall 0 (NdArray [1]), PredictCall (PList [NdArray [1]])]\<rparr>) \<and>
   length (filter is_predict_call (drop (length (trace demo_policy))
           (trace (snd (act PNone True True False True demo_policy))))) = 1"
proof -
  have tick: "py_mod (cnt demo_policy) (rate demo_policy) = Inr 0"
    by (simp add: py_mod_def demo_policy_def)
  have pred: "model_predict (model demo_policy)
      (apply_in_order (preprocessors demo_policy)
        (unwrap_state (if PNone = PNone then states demo_policy else PNone)))
      = Some (PList [NdArray [1, 5, 3], Tensor True [2, 7]])"
    by (simp add: demo_defs)
  note pipeline = act_prediction_pipeline [OF tick pred, of True True False True]
  have c: "compute_action_data PNone demo_policy =
     (Inr (), demo_policy\<lparr>action_data := PList [NdArray [1, 5, 3], Tensor True [2, 7]],
                  trace := [PreprocessorCall 0 (NdArray [1]), PredictCall (PList [NdArray [1]])]\<rparr>)"
    using pipeline [THEN conjunct1] by (simp add: demo_defs)
  have n: "length (filter is_predict_call (drop (length (trace demo_policy))
           (trace (snd (act PNone True True False True demo_policy))))) = 1"
    by (rule pipeline [THEN conjunct2, THEN conjunct2])
  from tick c n show ?thesis by (intro conjI)
qed

text \<open>
  The claim as first stated covers every policy. With the constructor's default
  \<open>model=None\<close> the call runs the preprocessors and then raises \<open>AttributeError\<close>: no
  \<open>predict\<close> is called and no postprocessor runs.
\<close>

theorem act_prediction_pipeline_counterexample:
  "py_mod (cnt none_model_policy) (rate none_model_policy) = Inr 0 \<and>
   act PNone True True False True none_model_policy =
     (Inl AttributeError, none_model_policy\<lparr>trace := [PreprocessorCall 0 (NdArray [1])]\<rparr>) \<and>
   filter is_predict_call (trace (snd (act PNone True True False True none_model_policy))) = []"
  by (simp add: none_model_policy_def eval_defs)

lemma act_calls_gated:
  assumes "int_of (rate p) \<noteq> 0"
      and "\<forall>k<length cs. (cnt p + int k) mod int_of (rate p) \<noteq> 0"
  shows "fst (act_calls cs p) = replicate (length cs) (Inr (action_data p))"
  using assms
proof (induction cs arbitrary: p)
  case Nil
  then show ?case by simp
next
  case (Cons c cs)
  obtain s dt tn rl ap where c: "c = (s, dt, tn, rl, ap)" by (cases c)
  from Cons.prems(2) [rule_format, of 0] have g: "cnt p mod int_of (rate p) \<noteq> 0" by simp
  define p1 where "p1 = p\<lparr>trace := trace p @ (if ap then [ActionsCall] else []), cnt := cnt p + 1\<rparr>"
  have step: "act s dt tn rl ap p = (Inr (action_data p), p1)"
    unfolding p1_def by (rule act_gated [OF Cons.prems(1) g])
  have p1: "cnt p1 = cnt p + 1" "rate p1 = rate p" "action_data p1 = action_data p"
    by (simp_all add: p1_def)
  have gs: "\<forall>k<length cs. (cnt p1 + int k) mod int_of (rate p1) \<noteq> 0"
  proof (intro allI impI)
    fix k assume "k < length cs"
    then have "Suc k < length (c # cs)" by simp
    from Cons.prems(2) [rule_format, OF this]
    have "(cnt p + int (Suc k)) mod int_of (rate p) \<noteq> 0" .
    moreover have "cnt p + int (Suc k) = cnt p1 + int k" by (simp add: p1)
    ultimately show "(cnt p1 + int k) mod int_of (rate p1) \<noteq> 0" by (simp only: p1(2) simp_thms)
  qed
  have r1: "int_of (rate p1) \<noteq> 0" using Cons.prems(1) by (simp only: p1(2) simp_thms)
  have ih: "fst (act_calls cs p1) = replicate (length cs) (Inr (action_data p))"
    using Cons.IH [OF r1 gs] by (simp only: p1(3))
  obtain rs p2 where rest: "act_calls cs p1 = (rs, p2)" by (cases "act_calls cs p1")
  with ih have rs: "rs = replicate (length cs) (Inr (action_data p))" by simp
  have "act_calls (c # cs) p = (Inr (action_data p) # rs, p2)"
    by (simp only: c act_calls.simps step rest prod.case)
  with rs show ?case by simp
qed

text \<open>
  C5, as amended. Every call of \<open>act\<close> that returns normally has increased \<open>cnt\<close> by
  exactly 1 and returns the stored action data; a call that raises leaves \<open>cnt\<close> as it
  was. On a call where \<open>cnt % rate != 0\<close> the call returns normally, the stored action
  data is unchanged, no preprocessor or postprocessor runs and \<open>predict\<close> is not invoked
  (the only call made is that of the actions, when asked for), so the data returned is the
  data of the last prediction tick: every call of a run of such calls returns what the
  call before the run returned.
\<close>

theorem act_rate_gating:
  "(act state det tn rl ap p = (Inr d, p') \<longrightarrow> cnt p' = cnt p + 1 \<and> d = action_data p') \<and>
   (act state det tn rl ap p = (Inl e, p') \<longrightarrow> cnt p' = cnt p) \<and>
   (int_of (rate p) \<noteq> 0 \<and> cnt p mod int_of (rate p) \<noteq> 0 \<longrightarrow>
      act state det tn rl ap p =
        (Inr (action_data p),
         p\<lparr>trace := trace p @ (if ap then [ActionsCall] else []), cnt := cnt p + 1\<rparr>)) \<and>
   (act state det tn rl ap p = (Inr d, p') \<and> int_of (rate p') \<noteq> 0 \<and>
    (\<forall>k<length cs. (cnt p' + int k) mod int_of (rate p') \<noteq> 0) \<longrightarrow>
      fst (act_calls cs p') = replicate (length cs) (Inr d))"
proof -
  have a: "cnt p' = cnt p + 1 \<and> d = action_data p'" if "act state det tn rl ap p = (Inr d, p')"
    using act_frame [OF that] by simp
  have b: "cnt p' = cnt p" if "act state det tn rl ap p = (Inl e, p')"
    using act_frame [OF that] by simp
  have c: "fst (act_calls cs p') = replicate (length cs) (Inr d)"
    if "act state det tn rl ap p = (Inr d, p')" "int_of (rate p') \<noteq> 0"
       "\<forall>k<length cs. (cnt p' + int k) mod int_of (rate p') \<noteq> 0"
    using a [OF that(1)] act_calls_gated [OF that(2,3)] by simp
  show ?thesis using a b c act_gated by blast
qed

theorem act_rate_gating_witness:
  "cnt demo_policy_after = cnt demo_policy + 1 \<and>
   demo_result = action_data demo_policy_after \<and>
   (\<exists>q. act PNone True True False True bad_data_policy = (Inl TypeError, q) \<and>
        cnt q = cnt bad_data_policy) \<and>
   act PNone True True False True demo_policy_after =
     (Inr (action_data demo_policy_after),
      demo_policy_after\<lparr>trace := trace demo_policy_after @ (if True then [ActionsCall] else []),
                        cnt := cnt demo_policy_after + 1\<rparr>) \<and>
   fst (act_calls [(NdArray [9], False, False, True, False)] demo_policy_after)
     = [Inr demo_result]"
proof -
  obtain q where bad: "act PNone True True False True bad_data_policy = (Inl TypeError, q)"
    using act_bad by blast
  have gated: "int_of (rate demo_policy_after) \<noteq> 0 \<and>
    cnt demo_policy_after mod int_of (rate demo_policy_after) \<noteq> 0"
    by (simp add: demo_policy_after_def demo_policy_def)
  note g1 = act_rate_gating [where state = PNone and det = True and tn = True and rl = False
      and ap = True and p = demo_policy and d = demo_result and p' = demo_policy_after
      and cs = "[(NdArray [9], False, False, True, False)]"]
  note g2 = act_rate_gating [where state = PNone and det = True and tn = True and rl = False
      and ap = True and p = bad_data_policy and e = TypeError and p' = q]
  note g3 = act_rate_gating [where state = PNone and det = True and tn = True and rl = False
      and ap = True and p = demo_policy_after]
  have a: "cnt demo_policy_after = cnt demo_policy + 1 \<and>
      demo_result = action_data demo_policy_after"
    using g1 act_demo by blast
  have b: "\<exists>q. act PNone True True False True bad_data_policy = (Inl TypeError, q) \<and>
        cnt q = cnt bad_data_policy"
    using g2 bad by blast
  have c: "act PNone True True False True demo_policy_after =
     (Inr (action_data demo_policy_after),
      demo_policy_after\<lparr>trace := trace demo_policy_after @ (if True then [ActionsCall] else []),
                        cnt := cnt demo_policy_after + 1\<rparr>)"
    using g3 gated by blast
  have one: "\<forall>k<length [(NdArray [9], False, False, True, False)].
      (cnt demo_policy_after + int k) mod int_of (rate demo_policy_after) \<noteq> 0"
    using gated by simp
  have "fst (act_calls [(NdArray [9], False, False, True, False)] demo_policy_after)
     = replicate (length [(NdArray [9], False, False, True, False)]) (Inr demo_result)"
    using g1 act_demo gated one by blast
  then have d: "fst (act_calls [(NdArray [9], False, False, True, False)] demo_policy_after)
     = [Inr demo_result]"
    by simp
  from a b c d show ?thesis by blast
qed

text \<open>
  The claim as first stated has \<open>cnt\<close> increase on every call. A call whose prediction is
  rejected by the loop over the actions raises \<open>TypeError\<close> before line 496 and leaves the
  counter where it was.
\<close>

theorem act_rate_gating_counterexample:
  "fst (act PNone True True False True bad_data_policy) = Inl TypeError \<and>
   cnt bad_data_policy = 0 \<and>
   cnt (snd (act PNone True True False True bad_data_policy)) = 0 \<and>
   cnt (snd (act PNone True True False True bad_data_policy)) \<noteq> cnt bad_data_policy + 1"
  by (simp add: bad_data_policy_def bad_data_learner_def eval_defs)

text \<open>
  C6, as amended. A call of \<open>act\<close> with \<open>apply_action=True\<close> that returns normally has
  called the actions object exactly once, and on a tick where \<open>cnt % rate != 0\<close> such a
  call always returns normally; a call that raises has not called it; with
  \<open>apply_action=False\<close> it is never called.
\<close>

theorem act_calls_actions:
  "(act state det tn rl True p = (Inr d, p') \<longrightarrow>
      count_list (trace p') ActionsCall = count_list (trace p) ActionsCall + 1) \<and>
   (int_of (rate p) \<noteq> 0 \<and> cnt p mod int_of (rate p) \<noteq> 0 \<longrightarrow>
      (\<exists>d' q. act state det tn rl True p = (Inr d', q) \<and>
         count_list (trace q) ActionsCall = count_list (trace p) ActionsCall + 1)) \<and>
   (act state det tn rl ap p = (Inl e, p') \<longrightarrow>
      count_list (trace p') ActionsCall = count_list (trace p) ActionsCall) \<and>
   count_list (trace (snd (act state det tn rl False p))) ActionsCall =
     count_list (trace p) ActionsCall"
proof -
  have a: "count_list (trace p') ActionsCall = count_list (trace p) ActionsCall + 1"
    if "act state det tn rl True p = (Inr d, p')"
    using act_frame [OF that] by simp
  have b: "\<exists>d' q. act state det tn rl True p = (Inr d', q) \<and>
         count_list (trace q) ActionsCall = count_list (trace p) ActionsCall + 1"
    if "int_of (rate p) \<noteq> 0" "cnt p mod int_of (rate p) \<noteq> 0"
    using act_gated [OF that, of state det tn rl True] by simp
  have c: "count_list (trace p') ActionsCall = count_list (trace p) ActionsCall"
    if "act state det tn rl ap p = (Inl e, p')"
    using act_frame [OF that] by simp
  have d: "count_list (trace (snd (act state det tn rl False p))) ActionsCall =
     count_list (trace p) ActionsCall"
  proof -
    obtain r q where rq: "act state det tn rl False p = (r, q)"
      by (cases "act state det tn rl False p")
    from act_frame [OF rq] rq show ?thesis by (cases r) simp_all
  qed
  show ?thesis using a b c d by blast
qed

theorem act_calls_actions_witness:
  "count_list (trace demo_policy_after) ActionsCall = count_list (trace demo_policy) ActionsCall + 1 \<and>
   (\<exists>d' q. act PNone True True False True demo_policy_after = (Inr d', q) \<and>
       count_list (trace q) ActionsCall = count_list (trace demo_policy_after) ActionsCall + 1) \<and>
   (\<exists>q. act PNone True True False True bad_data_policy = (Inl TypeError, q) \<and>
       count_list (trace q) ActionsCall = count_list (trace bad_data_policy) ActionsCall)"
proof -
  obtain q where bad: "act PNone True True False True bad_data_policy = (Inl TypeError, q)"
    using act_bad by blast
  have gated: "int_of (rate demo_policy_after) \<noteq> 0 \<and>
    cnt demo_policy_after mod int_of (rate demo_policy_after) \<noteq> 0"
    by (simp add: demo_policy_after_def demo_policy_def)
  note g1 = act_calls_actions [where state = PNone and det = True and tn = True and rl = False
      and p = demo_policy and d = demo_result and p' = demo_policy_after]
  note g2 = act_calls_actions [where state = PNone and det = True and tn = True and rl = False
      and p = demo_policy_after]
  note g3 = act_calls_actions [where state = PNone and det = True and tn = True and rl = False
      and ap = True and p = bad_data_policy and e = TypeError and p' = q]
  have a: "count_list (trace demo_policy_after) ActionsCall =
      count_list (trace demo_policy) ActionsCall + 1"
    using g1 act_demo by blast
  have b: "\<exists>d' q. act PNone True True False True demo_policy_after = (Inr d', q) \<and>
       count_list (trace q) ActionsCall = count_list (trace demo_policy_after) ActionsCall + 1"
    using g2 gated by blast
  have c: "\<exists>q. act PNone True True False True bad_data_policy = (Inl TypeError, q) \<and>
       count_list (trace q) ActionsCall = count_list (trace bad_data_policy) ActionsCall"
    using g3 bad by blast
  from a b c show ?thesis by (intro conjI)
qed

text \<open>
  The claim as first stated has the actions object called once on every call with
  \<open>apply_action=True\<close>. A call that raises during the prediction tick never reaches line
  493.
\<close>

theorem act_calls_actions_counterexample:
  "fst (act PNone True True False True bad_data_policy) = Inl TypeError \<and>
   trace bad_data_policy = [] \<and>
   trace (snd (act PNone True True False True bad_data_policy)) =
     [PreprocessorCall 0 (NdArray [1]), PredictCall (PList [NdArray [1]])] \<and>
   count_list (trace (snd (act PNone True True False True bad_data_policy))) ActionsCall
     \<noteq> count_list (trace bad_data_policy) ActionsCall + 1"
  by (simp add: bad_data_policy_def bad_data_learner_def eval_defs)

end
